theory Spec2Isabelle
  imports Main
begin

section \<open>Values of the JavaScript runtime\<close>

text \<open>
  The handlers read \<open>req.body\<close>, whose fields are loosely typed. The text fields
  (\<open>name\<close>, \<open>email\<close>, \<open>password\<close>, \<open>gender\<close>, \<open>currentPassword\<close>, \<open>newPassword\<close>)
  are modelled as \<open>string option\<close>: \<open>None\<close> is an absent field. The \<open>age\<close>
  field arrives as a number (JSON body) or as a string (multipart form), so it is a
  \<open>jsval\<close>. Numbers are restricted to integers and \<open>NaN\<close>.
\<close>

datatype jsnum = NaN | Num int

datatype jsval = JUndefined | JNumber int | JString string

text \<open>JavaScript truthiness: \<open>undefined\<close>, \<open>0\<close> and \<open>""\<close> are falsy.\<close>

fun truthy :: "jsval \<Rightarrow> bool" where
  "truthy JUndefined = False"
| "truthy (JNumber n) = (n \<noteq> 0)"
| "truthy (JString s) = (s \<noteq> [])"

fun truthy_s :: "string option \<Rightarrow> bool" where
  "truthy_s None = False"
| "truthy_s (Some s) = (s \<noteq> [])"

text \<open>\<open>String.prototype.toLowerCase\<close>, on ASCII letters.\<close>

definition lower_char :: "char \<Rightarrow> char" where
  "lower_char c =
     (case map_of (zip ''ABCDEFGHIJKLMNOPQRSTUVWXYZ'' ''abcdefghijklmnopqrstuvwxyz'') c of
        Some l \<Rightarrow> l
      | None \<Rightarrow> c)"

definition toLowerCase :: "string \<Rightarrow> string" where
  "toLowerCase s = map lower_char s"

section \<open>External collaborators\<close>

text \<open>
  Password hashing (\<open>bcrypt\<close>), token signing (\<open>jsonwebtoken\<close>), the image store's
  upload stream and the conversion \<open>Number(s)\<close> of a string are not code of this
  repository. They are parameters of every handler, collected in one record.
  \<open>jwt_verify\<close> returns \<open>None\<close> where \<open>jwt.verify\<close> throws. Deleting an image from the
  store has no effect on the accounts and its failure is swallowed by the handlers, so
  it is not part of the record.
\<close>

datatype upload_result = UploadError | UploadResult "string option"

record ext =
  bcrypt_hash :: "string \<Rightarrow> string"
  bcrypt_compare :: "string \<Rightarrow> string \<Rightarrow> bool"
  jwt_sign :: "nat \<Rightarrow> string"
  jwt_verify :: "string \<Rightarrow> nat option"
  Number_str :: "string \<Rightarrow> jsnum"
  upload_stream :: "string \<Rightarrow> upload_result"

text \<open>\<open>Number(v)\<close> for a body value.\<close>

fun Number_js :: "ext \<Rightarrow> jsval \<Rightarrow> jsnum" where
  "Number_js X JUndefined = NaN"
| "Number_js X (JNumber n) = Num n"
| "Number_js X (JString s) = Number_str X s"

text \<open>
  \<open>uploadImage\<close> (utils/cloudinary): rejects on an upload error, otherwise resolves to
  \<open>result?.secure_url || ""\<close>. \<open>None\<close> is the rejected promise.
\<close>

definition uploadImage :: "ext \<Rightarrow> string \<Rightarrow> string option" where
  "uploadImage X file =
     (case upload_stream X file of
        UploadError \<Rightarrow> None
      | UploadResult None \<Rightarrow> Some []
      | UploadResult (Some url) \<Rightarrow> Some url)"

section \<open>Validation helpers (routes/auth.ts, routes/user.ts)\<close>

text \<open>
  \<open>isValidEmail\<close> tests \<open>/^[^\s@]+@[^\s@]+\.[^\s@]+$/\<close>: no whitespace, exactly one
  \<open>@\<close> with a non-empty local part, and a dot inside the domain with at least one
  character on each side. Whitespace is the ASCII space and the control characters 9
  to 13.
\<close>

definition is_space :: "char \<Rightarrow> bool" where
  "is_space c = (let n = (of_char c :: nat) in n = 32 \<or> (9 \<le> n \<and> n \<le> 13))"

definition isValidEmail :: "string \<Rightarrow> bool" where
  "isValidEmail s =
     (let local_part = takeWhile (\<lambda>c. c \<noteq> CHR ''@'') s;
          rest = dropWhile (\<lambda>c. c \<noteq> CHR ''@'') s
      in local_part \<noteq> [] \<and> rest \<noteq> [] \<and> \<not> list_ex is_space s \<and>
         CHR ''@'' \<notin> set (tl rest) \<and> CHR ''.'' \<in> set (butlast (tl (tl rest))))"

fun isValidAge :: "jsnum \<Rightarrow> bool" where
  "isValidAge NaN = False"
| "isValidAge (Num n) = (13 \<le> n \<and> n \<le> 120)"

definition isValidGender :: "string \<Rightarrow> bool" where
  "isValidGender g =
     (toLowerCase g \<in> set [''male'', ''female'', ''other'', ''prefer-not-to-say''])"

section \<open>The User table\<close>

text \<open>
  One row of the \<open>User\<close> table, with the columns the handlers read and write. The
  primary key \<open>id\<close> is generated by the store; it is the field \<open>uid\<close> here, drawn
  from a counter kept with the table.
\<close>

record user =
  uid :: nat
  name :: string
  email :: string
  password :: "string option"
  age :: "int option"
  gender :: "string option"
  profilePicture :: "string option"
  provider :: string
  googleId :: "string option"
  isProfileComplete :: bool
  createdAt :: nat
  updatedAt :: nat

record db =
  users :: "user list"
  next_id :: nat

definition findUnique_email :: "string \<Rightarrow> db \<Rightarrow> user option" where
  "findUnique_email e d = find (\<lambda>u. email u = e) (users d)"

definition findUnique_id :: "nat \<Rightarrow> db \<Rightarrow> user option" where
  "findUnique_id i d = find (\<lambda>u. uid u = i) (users d)"

text \<open>
  The unique indexes of the migration: \<open>User_email_key\<close> on \<open>email\<close> and
  \<open>User_googleId_key\<close> on \<open>googleId\<close> (a null \<open>googleId\<close> never conflicts). Both
  compare the stored strings exactly.
\<close>

definition email_taken :: "string \<Rightarrow> db \<Rightarrow> bool" where
  "email_taken e d = list_ex (\<lambda>u. email u = e) (users d)"

definition googleId_taken :: "string option \<Rightarrow> db \<Rightarrow> bool" where
  "googleId_taken g d = (g \<noteq> None \<and> list_ex (\<lambda>u. googleId u = g) (users d))"

text \<open>
  \<open>prisma.user.create\<close>: the store assigns the id and the timestamps, whatever the
  argument holds in these three fields. \<open>None\<close> is the exception thrown on a violated
  unique index.
\<close>

definition prisma_create :: "nat \<Rightarrow> user \<Rightarrow> db \<Rightarrow> (user \<times> db) option" where
  "prisma_create now data d =
     (if email_taken (email data) d \<or> googleId_taken (googleId data) d then None
      else let u = data\<lparr>uid := next_id d, createdAt := now, updatedAt := now\<rparr>
           in Some (u, \<lparr>users = users d @ [u], next_id = Suc (next_id d)\<rparr>))"

text \<open>
  \<open>prisma.user.update({where: {id}, data})\<close>: \<open>None\<close> is the exception thrown when no
  row has the id, or when the update moves \<open>googleId\<close> onto a value another row holds.
  The column \<open>updatedAt\<close> is refreshed on every update: the migration declares it
  \<open>NOT NULL\<close> without a default and no handler supplies it on create, so the client
  maintains it.
\<close>

definition prisma_update :: "nat \<Rightarrow> nat \<Rightarrow> (user \<Rightarrow> user) \<Rightarrow> db \<Rightarrow> (user \<times> db) option" where
  "prisma_update now i f d =
     (case findUnique_id i d of
        None \<Rightarrow> None
      | Some u \<Rightarrow>
          let u' = (f u)\<lparr>updatedAt := now\<rparr>
          in if googleId u' \<noteq> googleId u \<and> googleId_taken (googleId u') d then None
             else Some (u', d\<lparr>users := map (\<lambda>x. if uid x = i then u' else x) (users d)\<rparr>))"


section \<open>Responses\<close>

text \<open>
  A response is the HTTP status with the JSON body that \<open>res.status(n).json(body)\<close>
  sends. \<open>select_user\<close> is Prisma's \<open>select\<close>: the listed columns of a row.
\<close>

datatype json = JNull | JStr string | JInt int | JBool bool | JObj "(string \<times> json) list"

datatype response = Response nat json

fun status_of :: "response \<Rightarrow> nat" where
  "status_of (Response st b) = st"

fun body_of :: "response \<Rightarrow> json" where
  "body_of (Response st b) = b"

definition error_json :: "nat \<Rightarrow> string \<Rightarrow> response" where
  "error_json st msg = Response st (JObj [(''error'', JStr msg)])"

fun json_opt_str :: "string option \<Rightarrow> json" where
  "json_opt_str None = JNull"
| "json_opt_str (Some s) = JStr s"

fun json_opt_int :: "int option \<Rightarrow> json" where
  "json_opt_int None = JNull"
| "json_opt_int (Some n) = JInt n"

definition user_fields :: "user \<Rightarrow> (string \<times> json) list" where
  "user_fields u =
     [(''id'', JInt (int (uid u))),
      (''name'', JStr (name u)),
      (''email'', JStr (email u)),
      (''password'', json_opt_str (password u)),
      (''age'', json_opt_int (age u)),
      (''gender'', json_opt_str (gender u)),
      (''profilePicture'', json_opt_str (profilePicture u)),
      (''provider'', JStr (provider u)),
      (''googleId'', json_opt_str (googleId u)),
      (''isProfileComplete'', JBool (isProfileComplete u)),
      (''createdAt'', JInt (int (createdAt u))),
      (''updatedAt'', JInt (int (updatedAt u)))]"

definition select_user :: "string list \<Rightarrow> user \<Rightarrow> (string \<times> json) list" where
  "select_user ks u = filter (\<lambda>kv. fst kv \<in> set ks) (user_fields u)"

text \<open>Member access on a JSON object: \<open>None\<close> when the key is absent.\<close>

fun json_get :: "string \<Rightarrow> json \<Rightarrow> json option" where
  "json_get k (JObj kvs) = map_of kvs k"
| "json_get k _ = None"

section \<open>Request fields\<close>

fun str_of :: "string option \<Rightarrow> string" where
  "str_of None = []"
| "str_of (Some s) = s"

text \<open>\<open>age && !isValidAge(Number(age))\<close> and \<open>gender && !isValidGender(gender)\<close>.\<close>

definition age_rejected :: "ext \<Rightarrow> jsval \<Rightarrow> bool" where
  "age_rejected X a = (truthy a \<and> \<not> isValidAge (Number_js X a))"

definition gender_rejected :: "string option \<Rightarrow> bool" where
  "gender_rejected g = (truthy_s g \<and> \<not> isValidGender (str_of g))"

text \<open>
  \<open>age ? Number(age) : null\<close> and \<open>gender ? gender.toLowerCase() : null\<close>, the values
  written to the columns. The handlers validate before they write, so \<open>Number(age)\<close> is
  a number of the valid range wherever \<open>age_col\<close> is reached with a truthy age.
\<close>

definition age_col :: "ext \<Rightarrow> jsval \<Rightarrow> int option" where
  "age_col X a =
     (if truthy a then (case Number_js X a of Num n \<Rightarrow> Some n | NaN \<Rightarrow> None) else None)"

definition gender_col :: "string option \<Rightarrow> string option" where
  "gender_col g = (if truthy_s g then Some (toLowerCase (str_of g)) else None)"

section \<open>POST /signup (routes/auth.ts)\<close>

record signup_req =
  s_name :: "string option"
  s_email :: "string option"
  s_password :: "string option"
  s_age :: jsval
  s_gender :: "string option"
  s_file :: "string option"

definition signup :: "ext \<Rightarrow> nat \<Rightarrow> signup_req \<Rightarrow> db \<Rightarrow> response \<times> db" where
  "signup X now r d =
     (if \<not> truthy_s (s_name r) \<or> \<not> truthy_s (s_email r) \<or> \<not> truthy_s (s_password r)
      then (error_json 400 ''Name, email, and password are required'', d)
      else if \<not> isValidEmail (str_of (s_email r))
      then (error_json 400 ''Invalid email format'', d)
      else if length (str_of (s_password r)) < 6
      then (error_json 400 ''Password must be at least 6 characters long'', d)
      else if age_rejected X (s_age r)
      then (error_json 400 ''Age must be between 13 and 120'', d)
      else if gender_rejected (s_gender r)
      then (error_json 400 ''Invalid gender selection'', d)
      else
        (case findUnique_email (toLowerCase (str_of (s_email r))) d of
           Some existingUser \<Rightarrow> (error_json 400 ''User with this email already exists'', d)
         | None \<Rightarrow>
             (case (case s_file r of None \<Rightarrow> Some None
                    | Some file \<Rightarrow> map_option Some (uploadImage X file)) of
                None \<Rightarrow> (error_json 400 ''Failed to upload image'', d)
              | Some profilePictureUrl \<Rightarrow>
                  (case prisma_create now
                          \<lparr>uid = 0,
                           name = str_of (s_name r),
                           email = toLowerCase (str_of (s_email r)),
                           password = Some (bcrypt_hash X (str_of (s_password r))),
                           age = age_col X (s_age r),
                           gender = gender_col (s_gender r),
                           profilePicture = profilePictureUrl,
                           provider = ''credentials'',
                           googleId = None,
                           isProfileComplete = (truthy (s_age r) \<and> truthy_s (s_gender r)),
                           createdAt = 0,
                           updatedAt = 0\<rparr> d of
                     None \<Rightarrow> (error_json 500 ''Internal server error'', d)
                   | Some (u, d') \<Rightarrow>
                       (Response 201
                          (JObj [(''message'', JStr ''User created successfully''),
                                 (''user'', JObj (select_user
                                    [''id'', ''name'', ''email'', ''age'', ''gender'',
                                     ''profilePicture'', ''provider'', ''createdAt''] u)),
                                 (''token'', JStr (jwt_sign X (uid u)))]),
                        d')))))"

section \<open>POST /login (routes/auth.ts)\<close>

record login_req =
  l_email :: "string option"
  l_password :: "string option"

definition login :: "ext \<Rightarrow> login_req \<Rightarrow> db \<Rightarrow> response" where
  "login X r d =
     (if \<not> truthy_s (l_email r) \<or> \<not> truthy_s (l_password r)
      then error_json 400 ''Email and password are required''
      else if \<not> isValidEmail (str_of (l_email r))
      then error_json 400 ''Invalid email format''
      else
        (case findUnique_email (toLowerCase (str_of (l_email r))) d of
           None \<Rightarrow> error_json 401 ''Invalid credentials''
         | Some u \<Rightarrow>
             if \<not> truthy_s (password u) then error_json 401 ''Please login with Google''
             else if \<not> bcrypt_compare X (str_of (l_password r)) (str_of (password u))
             then error_json 401 ''Invalid credentials''
             else Response 200
                    (JObj [(''message'', JStr ''Login successful''),
                           (''user'', JObj (filter (\<lambda>kv. fst kv \<noteq> ''password'') (user_fields u))),
                           (''token'', JStr (jwt_sign X (uid u)))])))"


section \<open>POST /complete-profile (routes/auth.ts)\<close>

text \<open>\<open>String.prototype.split\<close> on a one-character separator.\<close>

fun split_on :: "char \<Rightarrow> string \<Rightarrow> string list" where
  "split_on c [] = [[]]"
| "split_on c (x # xs) =
     (if x = c then [] # split_on c xs
      else (case split_on c xs of [] \<Rightarrow> [[x]] | w # ws \<Rightarrow> (x # w) # ws))"

text \<open>
  \<open>authHeader && authHeader.split(" ")[1]\<close>: \<open>None\<close> is \<open>undefined\<close>, from a missing
  header or a header of one word.
\<close>

definition bearer_token :: "string option \<Rightarrow> string option" where
  "bearer_token authHeader =
     (if \<not> truthy_s authHeader then authHeader
      else (case split_on CHR '' '' (str_of authHeader) of
              a # t # rest \<Rightarrow> Some t
            | _ \<Rightarrow> None))"

record complete_req =
  c_authorization :: "string option"
  c_age :: jsval
  c_gender :: "string option"
  c_password :: "string option"

definition complete_profile :: "ext \<Rightarrow> nat \<Rightarrow> complete_req \<Rightarrow> db \<Rightarrow> response \<times> db" where
  "complete_profile X now r d =
     (if \<not> truthy_s (bearer_token (c_authorization r))
      then (error_json 401 ''No token provided'', d)
      else
        (case jwt_verify X (str_of (bearer_token (c_authorization r))) of
           None \<Rightarrow> (error_json 500 ''Internal server error'', d)
         | Some userId \<Rightarrow>
             if \<not> truthy (c_age r) \<or> \<not> truthy_s (c_gender r)
             then (error_json 400 ''Age and gender are required'', d)
             else if \<not> isValidAge (Number_js X (c_age r))
             then (error_json 400 ''Age must be between 13 and 120'', d)
             else if \<not> isValidGender (str_of (c_gender r))
             then (error_json 400 ''Invalid gender selection'', d)
             else
               (case findUnique_id userId d of
                  None \<Rightarrow> (error_json 404 ''User not found'', d)
                | Some currentUser \<Rightarrow>
                    if provider currentUser = ''google'' \<and> truthy_s (c_password r) \<and>
                       length (str_of (c_password r)) < 6
                    then (error_json 400 ''Password must be at least 6 characters long'', d)
                    else
                      (case prisma_update now userId
                              (\<lambda>u. u\<lparr>age := age_col X (c_age r),
                                      gender := Some (toLowerCase (str_of (c_gender r))),
                                      isProfileComplete := True,
                                      password :=
                                        (if provider currentUser = ''google'' \<and> truthy_s (c_password r)
                                         then Some (bcrypt_hash X (str_of (c_password r)))
                                         else password u)\<rparr>) d of
                         None \<Rightarrow> (error_json 500 ''Internal server error'', d)
                       | Some (updatedUser, d') \<Rightarrow>
                           (Response 200
                              (JObj [(''message'', JStr ''Profile completed successfully''),
                                     (''user'', JObj (select_user
                                        [''id'', ''name'', ''email'', ''age'', ''gender'',
                                         ''profilePicture'', ''provider'', ''createdAt'']
                                        updatedUser))]),
                            d')))))"

section \<open>The Google strategy's verify callback (auth/passport)\<close>

text \<open>
  \<open>profile.emails?.[0].value\<close> and \<open>profile.photos?.[0].value\<close>: an absent list gives
  \<open>undefined\<close> (\<open>Some None\<close>), an empty list throws a TypeError (\<open>None\<close>).
\<close>

record google_profile =
  p_id :: string
  p_displayName :: string
  p_emails :: "string list option"
  p_photos :: "string list option"

fun first_value :: "string list option \<Rightarrow> string option option" where
  "first_value None = Some None"
| "first_value (Some []) = None"
| "first_value (Some (v # vs)) = Some (Some v)"

text \<open>
  The callback ends in \<open>done(err)\<close> (\<open>Inl\<close>, with the error's message or class) or in
  \<open>done(null, user)\<close> (\<open>Inr\<close>).
\<close>

definition google_verify :: "nat \<Rightarrow> google_profile \<Rightarrow> db \<Rightarrow> (string + user) \<times> db" where
  "google_verify now profile d =
     (case first_value (p_emails profile) of
        None \<Rightarrow> (Inl ''TypeError'', d)
      | Some em \<Rightarrow>
          if \<not> truthy_s em then (Inl ''No email found in Google profile'', d)
          else
            (case findUnique_email (str_of em) d of
               None \<Rightarrow>
                 (case first_value (p_photos profile) of
                    None \<Rightarrow> (Inl ''TypeError'', d)
                  | Some photo \<Rightarrow>
                      (case prisma_create now
                              \<lparr>uid = 0,
                               name = p_displayName profile,
                               email = str_of em,
                               password = None,
                               age = None,
                               gender = None,
                               profilePicture = photo,
                               provider = ''google'',
                               googleId = Some (p_id profile),
                               isProfileComplete = False,
                               createdAt = 0,
                               updatedAt = 0\<rparr> d of
                         None \<Rightarrow> (Inl ''PrismaClientKnownRequestError'', d)
                       | Some (u, d') \<Rightarrow> (Inr u, d')))
             | Some u \<Rightarrow>
                 (case (if truthy_s (profilePicture u) then Some None
                        else first_value (p_photos profile)) of
                    None \<Rightarrow> (Inl ''TypeError'', d)
                  | Some photo \<Rightarrow>
                      (case prisma_update now (uid u)
                              (\<lambda>x. x\<lparr>googleId := Some (p_id profile),
                                      provider := ''google'',
                                      profilePicture :=
                                        (if truthy_s photo then photo else profilePicture x),
                                      name :=
                                        (if name u \<noteq> p_displayName profile
                                         then p_displayName profile else name x),
                                      isProfileComplete := (age u \<noteq> None \<and> gender u \<noteq> None)\<rparr>) d of
                         None \<Rightarrow> (Inl ''PrismaClientKnownRequestError'', d)
                       | Some (u', d') \<Rightarrow> (Inr u', d')))))"

section \<open>GET /profile, PUT /profile, DELETE /profile/picture, POST /change-password (routes/user.ts)\<close>

text \<open>
  These routes run behind \<open>authenticateToken\<close>, which is not among the sources: its
  result \<open>req.user\<close> is the argument \<open>auth\<close>, the id of the authenticated account or
  \<open>None\<close>.
\<close>

definition get_profile :: "nat option \<Rightarrow> db \<Rightarrow> response" where
  "get_profile auth d =
     (case auth of
        None \<Rightarrow> error_json 401 ''Unauthorized''
      | Some i \<Rightarrow>
          (case findUnique_id i d of
             None \<Rightarrow> error_json 404 ''User not found''
           | Some dbUser \<Rightarrow>
               Response 200
                 (JObj [(''user'', JObj (select_user
                    [''id'', ''name'', ''email'', ''age'', ''gender'', ''profilePicture'',
                     ''provider'', ''password'', ''createdAt'', ''updatedAt''] dbUser))])))"

record profile_req =
  u_name :: "string option"
  u_age :: jsval
  u_gender :: "string option"
  u_file :: "string option"

definition put_profile :: "ext \<Rightarrow> nat \<Rightarrow> nat option \<Rightarrow> profile_req \<Rightarrow> db \<Rightarrow> response \<times> db" where
  "put_profile X now auth r d =
     (case auth of
        None \<Rightarrow> (error_json 401 ''Unauthorized'', d)
      | Some i \<Rightarrow>
          if \<not> truthy_s (u_name r) then (error_json 400 ''Name is required'', d)
          else if age_rejected X (u_age r)
          then (error_json 400 ''Age must be between 13 and 120'', d)
          else if gender_rejected (u_gender r)
          then (error_json 400 ''Invalid gender selection'', d)
          else
            (case (case u_file r of
                     None \<Rightarrow> Some (case findUnique_id i d of None \<Rightarrow> None
                                   | Some currentUser \<Rightarrow> profilePicture currentUser)
                   | Some file \<Rightarrow> map_option Some (uploadImage X file)) of
               None \<Rightarrow> (error_json 400 ''Failed to upload image'', d)
             | Some profilePictureUrl \<Rightarrow>
                 (case prisma_update now i
                         (\<lambda>u. u\<lparr>name := str_of (u_name r),
                                 age := (case age_col X (u_age r) of None \<Rightarrow> age u | Some n \<Rightarrow> Some n),
                                 gender := (case gender_col (u_gender r) of None \<Rightarrow> gender u
                                            | Some g \<Rightarrow> Some g),
                                 profilePicture := profilePictureUrl,
                                 isProfileComplete := (truthy (u_age r) \<and> truthy_s (u_gender r))\<rparr>) d of
                    None \<Rightarrow> (error_json 500 ''Internal server error'', d)
                  | Some (updatedUser, d') \<Rightarrow>
                      (Response 200
                         (JObj [(''message'', JStr ''Profile updated successfully''),
                                (''user'', JObj (select_user
                                   [''id'', ''name'', ''email'', ''age'', ''gender'',
                                    ''profilePicture'', ''provider'', ''createdAt'', ''updatedAt'']
                                   updatedUser))]),
                       d'))))"

definition delete_profile_picture :: "nat \<Rightarrow> nat option \<Rightarrow> db \<Rightarrow> response \<times> db" where
  "delete_profile_picture now auth d =
     (case auth of
        None \<Rightarrow> (error_json 401 ''Unauthorized'', d)
      | Some i \<Rightarrow>
          if \<not> truthy_s (case findUnique_id i d of None \<Rightarrow> None
                          | Some currentUser \<Rightarrow> profilePicture currentUser)
          then (error_json 400 ''No profile picture to delete'', d)
          else
            (case prisma_update now i (\<lambda>u. u\<lparr>profilePicture := None\<rparr>) d of
               None \<Rightarrow> (error_json 500 ''Internal server error'', d)
             | Some (updatedUser, d') \<Rightarrow>
                 (Response 200
                    (JObj [(''message'', JStr ''Profile picture deleted successfully''),
                           (''user'', JObj (select_user
                              [''id'', ''name'', ''email'', ''age'', ''gender'',
                               ''profilePicture'', ''provider'', ''createdAt'', ''updatedAt'']
                              updatedUser))]),
                  d')))"

record password_req =
  currentPassword :: "string option"
  newPassword :: "string option"

definition change_password :: "ext \<Rightarrow> nat \<Rightarrow> nat option \<Rightarrow> password_req \<Rightarrow> db \<Rightarrow> response \<times> db" where
  "change_password X now auth r d =
     (case auth of
        None \<Rightarrow> (error_json 401 ''Unauthorized'', d)
      | Some i \<Rightarrow>
          if \<not> truthy_s (newPassword r) then (error_json 400 ''New password is required'', d)
          else if length (str_of (newPassword r)) < 6
          then (error_json 400 ''New password must be at least 6 characters long'', d)
          else
            (case findUnique_id i d of
               None \<Rightarrow> (error_json 404 ''User not found'', d)
             | Some dbUser \<Rightarrow>
                 if provider dbUser = ''google'' \<and> \<not> truthy_s (password dbUser)
                 then
                   (case prisma_update now i
                           (\<lambda>u. u\<lparr>password := Some (bcrypt_hash X (str_of (newPassword r)))\<rparr>) d of
                      None \<Rightarrow> (error_json 500 ''Internal server error'', d)
                    | Some (u', d') \<Rightarrow>
                        (Response 200 (JObj [(''message'', JStr ''Password set successfully'')]), d'))
                 else if \<not> truthy_s (currentPassword r)
                 then (error_json 400 ''Current password is required'', d)
                 else if \<not> truthy_s (password dbUser)
                 then (error_json 400 ''Password change not available for this user'', d)
                 else if \<not> bcrypt_compare X (str_of (currentPassword r)) (str_of (password dbUser))
                 then (error_json 400 ''Current password is incorrect'', d)
                 else
                   (case prisma_update now i
                           (\<lambda>u. u\<lparr>password := Some (bcrypt_hash X (str_of (newPassword r)))\<rparr>) d of
                      None \<Rightarrow> (error_json 500 ''Internal server error'', d)
                    | Some (u', d') \<Rightarrow>
                        (Response 200 (JObj [(''message'', JStr ''Password changed successfully'')]), d'))))"


section \<open>The vocabulary of the specification\<close>

text \<open>
  The specification names error kinds where the handlers send a status and a message.
  \<open>error_kind\<close> reads a response the way the specification's description of each
  operation names its failures: a rejected login or a rejected current password is
  \<open>InvalidCredentials\<close>, a rejected input is \<open>ValidationError\<close>, and so on.
\<close>

datatype error_kind =
  ValidationError | DuplicateEmail | InvalidCredentials | NotFound | Unauthorized
  | UpstreamFailure | NothingToDelete | InternalError

definition error_kind :: "response \<Rightarrow> error_kind option" where
  "error_kind res =
     (case json_get ''error'' (body_of res) of
        Some (JStr msg) \<Rightarrow>
          map_of
            [(''Name, email, and password are required'', ValidationError),
             (''Email and password are required'', ValidationError),
             (''Invalid email format'', ValidationError),
             (''Password must be at least 6 characters long'', ValidationError),
             (''Age must be between 13 and 120'', ValidationError),
             (''Invalid gender selection'', ValidationError),
             (''Age and gender are required'', ValidationError),
             (''Name is required'', ValidationError),
             (''New password is required'', ValidationError),
             (''New password must be at least 6 characters long'', ValidationError),
             (''Current password is required'', ValidationError),
             (''Password change not available for this user'', ValidationError),
             (''User with this email already exists'', DuplicateEmail),
             (''Invalid credentials'', InvalidCredentials),
             (''Please login with Google'', InvalidCredentials),
             (''Current password is incorrect'', InvalidCredentials),
             (''User not found'', NotFound),
             (''No token provided'', Unauthorized),
             (''Unauthorized'', Unauthorized),
             (''Failed to upload image'', UpstreamFailure),
             (''No profile picture to delete'', NothingToDelete),
             (''Internal server error'', InternalError)] msg
      | _ \<Rightarrow> None)"

text \<open>The cached flag agrees with the presence of \<open>age\<close> and \<open>gender\<close>.\<close>

definition profile_flag_ok :: "user \<Rightarrow> bool" where
  "profile_flag_ok u = (isProfileComplete u = (age u \<noteq> None \<and> gender u \<noteq> None))"

text \<open>No two rows hold emails that are equal up to letter case.\<close>

definition emails_distinct_ci :: "db \<Rightarrow> bool" where
  "emails_distinct_ci d = distinct (map (\<lambda>u. toLowerCase (email u)) (users d))"

text \<open>An account whose email equals the given one up to letter case.\<close>

definition registered_ci :: "string \<Rightarrow> db \<Rightarrow> bool" where
  "registered_ci e d = list_ex (\<lambda>u. toLowerCase (email u) = toLowerCase e) (users d)"

section \<open>A sample environment\<close>

text \<open>
  Concrete collaborators for the examples: a hash that tags the secret, a token that
  encodes the id in its length, and \<open>Number\<close> on strings of decimal digits.
\<close>

definition is_digit :: "char \<Rightarrow> bool" where
  "is_digit c = (let n = (of_char c :: nat) in 48 \<le> n \<and> n \<le> 57)"

definition sample_Number :: "string \<Rightarrow> jsnum" where
  "sample_Number s =
     (if list_all is_digit s
      then Num (int (foldl (\<lambda>a c. 10 * a + (of_char c - 48)) 0 s))
      else NaN)"

definition sample_ext :: ext where
  "sample_ext =
     \<lparr>bcrypt_hash = (\<lambda>p. ''$2a$12$'' @ p),
      bcrypt_compare = (\<lambda>p h. h = ''$2a$12$'' @ p),
      jwt_sign = (\<lambda>i. replicate i CHR ''t''),
      jwt_verify = (\<lambda>t. if list_all (\<lambda>c. c = CHR ''t'') t then Some (length t) else None),
      Number_str = sample_Number,
      upload_stream = (\<lambda>file. UploadResult (Some (''https://res.cloudinary.com/'' @ file)))\<rparr>"

definition empty_db :: db where
  "empty_db = \<lparr>users = [], next_id = 1\<rparr>"


section \<open>Predicates and samples used by the theorems\<close>

text \<open>The primary key: the stored ids are distinct, and each was drawn from the counter.\<close>

definition wf_db :: "db \<Rightarrow> bool" where
  "wf_db d = (distinct (map uid (users d)) \<and> list_all (\<lambda>u. uid u < next_id d) (users d))"

text \<open>Every stored email is in lower case, as signup writes it.\<close>

definition emails_lower :: "db \<Rightarrow> bool" where
  "emails_lower d = list_all (\<lambda>u. toLowerCase (email u) = email u) (users d)"

definition flags_ok :: "db \<Rightarrow> bool" where
  "flags_ok d = list_all profile_flag_ok (users d)"

text \<open>The field \<open>k\<close> of the \<open>user\<close> object of a response body, if there is one.\<close>

definition response_user_field :: "string \<Rightarrow> response \<Rightarrow> json option" where
  "response_user_field k res =
     (case json_get ''user'' (body_of res) of Some obj \<Rightarrow> json_get k obj | None \<Rightarrow> None)"

text \<open>
  Some stored account has the request's email up to letter case, holds a hash, and the
  hash matches the request's secret: the case in which a login is to succeed.
\<close>

definition credentials_match :: "ext \<Rightarrow> login_req \<Rightarrow> db \<Rightarrow> bool" where
  "credentials_match X r d =
     list_ex (\<lambda>u. toLowerCase (email u) = toLowerCase (str_of (l_email r)) \<and>
                  truthy_s (password u) \<and>
                  bcrypt_compare X (str_of (l_password r)) (str_of (password u))) (users d)"

text \<open>
  Sample requests and the states they lead to from the empty table: a local account
  for \<open>a@b.com\<close>, and federated accounts for \<open>bob@x.org\<close> and for \<open>A@b.com\<close>.
\<close>

definition sample_signup :: signup_req where
  "sample_signup =
     \<lparr>s_name = Some ''Ann'', s_email = Some ''a@b.com'', s_password = Some ''abcdef'',
      s_age = JNumber 25, s_gender = Some ''male'', s_file = None\<rparr>"

definition ann_db :: db where
  "ann_db = snd (signup sample_ext 5 sample_signup empty_db)"

definition bob_profile :: google_profile where
  "bob_profile =
     \<lparr>p_id = ''g2'', p_displayName = ''Bob'', p_emails = Some [''bob@x.org''],
      p_photos = Some [''https://lh3.example/bob.png'']\<rparr>"

definition bob_db :: db where
  "bob_db = snd (google_verify 6 bob_profile empty_db)"

definition upper_profile :: google_profile where
  "upper_profile =
     \<lparr>p_id = ''g1'', p_displayName = ''Ann'', p_emails = Some [''A@b.com''], p_photos = None\<rparr>"

definition upper_db :: db where
  "upper_db = snd (google_verify 5 upper_profile empty_db)"

definition renamed_profile :: google_profile where
  "renamed_profile =
     \<lparr>p_id = ''g1'', p_displayName = ''Ann'', p_emails = Some [''ann@new.org''], p_photos = None\<rparr>"

definition name_only :: profile_req where
  "name_only = \<lparr>u_name = Some ''Ann B'', u_age = JUndefined, u_gender = None, u_file = None\<rparr>"

definition with_picture :: profile_req where
  "with_picture =
     \<lparr>u_name = Some ''Ann'', u_age = JUndefined, u_gender = None, u_file = Some ''img.png''\<rparr>"

definition ann_row :: user where
  "ann_row =
     \<lparr>uid = 1, name = ''Ann'', email = ''a@b.com'', password = Some ''$2a$12$abcdef'',
      age = Some 25, gender = Some ''male'', profilePicture = None,
      provider = ''credentials'', googleId = None, isProfileComplete = True,
      createdAt = 5, updatedAt = 5\<rparr>"

definition bob_row :: user where
  "bob_row =
     \<lparr>uid = 1, name = ''Bob'', email = ''bob@x.org'', password = None, age = None,
      gender = None, profilePicture = Some ''https://lh3.example/bob.png'',
      provider = ''google'', googleId = Some ''g2'', isProfileComplete = False,
      createdAt = 6, updatedAt = 6\<rparr>"

definition upper_row :: user where
  "upper_row =
     \<lparr>uid = 1, name = ''Ann'', email = ''A@b.com'', password = None, age = None,
      gender = None, profilePicture = None, provider = ''google'', googleId = Some ''g1'',
      isProfileComplete = False, createdAt = 5, updatedAt = 5\<rparr>"

text \<open>The federated account \<open>A@b.com\<close> after it completed its profile with a secret.\<close>

definition upper_complete :: complete_req where
  "upper_complete =
     \<lparr>c_authorization = Some ''Bearer t'', c_age = JNumber 30, c_gender = Some ''female'',
      c_password = Some ''hunter22''\<rparr>"

definition upper_hash_db :: db where
  "upper_hash_db = snd (complete_profile sample_ext 8 upper_complete upper_db)"

definition upper_hash_row :: user where
  "upper_hash_row =
     \<lparr>uid = 1, name = ''Ann'', email = ''A@b.com'', password = Some ''$2a$12$hunter22'',
      age = Some 30, gender = Some ''female'', profilePicture = None, provider = ''google'',
      googleId = Some ''g1'', isProfileComplete = True, createdAt = 5, updatedAt = 8\<rparr>"

section \<open>Lemmas about the table\<close>

lemma find_map_update:
  "find (\<lambda>x. uid x = i) us = Some u \<Longrightarrow> uid u' = i \<Longrightarrow>
   find (\<lambda>x. uid x = i) (map (\<lambda>x. if uid x = i then u' else x) us) = Some u'"
  by (induction us) (auto split: if_splits)

lemma find_append_new: "find P xs = None \<Longrightarrow> P x \<Longrightarrow> find P (xs @ [x]) = Some x"
  by (induction xs) (auto split: if_splits)

lemma find_fresh_id: "list_all (\<lambda>u. uid u < n) us \<Longrightarrow> find (\<lambda>u. uid u = n) us = None"
  by (induction us) auto

lemma findUnique_id_uid: "findUnique_id i d = Some u \<Longrightarrow> uid u = i"
  by (auto simp: findUnique_id_def find_Some_iff)

lemma findUnique_email_None_not_taken: "findUnique_email e d = None \<Longrightarrow> \<not> email_taken e d"
  by (auto simp: findUnique_email_def email_taken_def list_ex_iff find_None_iff)

text \<open>
  An update that leaves the id and \<open>googleId\<close> of an existing row alone succeeds, and
  the row is found again under its id with the update applied.
\<close>

lemma prisma_update_same_googleId:
  assumes "findUnique_id i d = Some u" "googleId (f u) = googleId u" "uid (f u) = uid u"
  shows "\<exists>d'. prisma_update now i f d = Some ((f u)\<lparr>updatedAt := now\<rparr>, d') \<and>
              findUnique_id i d' = Some ((f u)\<lparr>updatedAt := now\<rparr>) \<and>
              length (users d') = length (users d)"
  using assms findUnique_id_uid[OF assms(1)]
  by (simp add: prisma_update_def findUnique_id_def find_map_update Let_def)

lemma wf_db_empty: "wf_db empty_db"
  by (simp add: wf_db_def empty_db_def)

lemma prisma_create_wf: "wf_db d \<Longrightarrow> prisma_create now data d = Some (u, d') \<Longrightarrow> wf_db d'"
  by (fastforce simp: prisma_create_def wf_db_def Let_def list_all_iff less_Suc_eq split: if_splits)

lemma map_uid_update:
  "uid u' = i \<Longrightarrow> map uid (map (\<lambda>x. if uid x = i then u' else x) us) = map uid us"
  by (induction us) auto

lemma prisma_update_wf:
  assumes "wf_db d" "prisma_update now i f d = Some (u', d')" "\<And>u. uid (f u) = uid u"
  shows "wf_db d'"
proof -
  obtain u where u: "findUnique_id i d = Some u" "u' = (f u)\<lparr>updatedAt := now\<rparr>"
    "d' = d\<lparr>users := map (\<lambda>x. if uid x = i then u' else x) (users d)\<rparr>"
    using assms(2) by (auto simp: prisma_update_def Let_def split: option.splits if_splits)
  have "uid u' = i" using u assms(3) findUnique_id_uid[OF u(1)] by simp
  then have ids: "map uid (users d') = map uid (users d)"
    using u(3) map_uid_update[of u' i "users d"] by simp
  have "list_all (\<lambda>x. uid x < next_id d') (users d')"
    using assms(1) u(3) \<open>uid u' = i\<close> findUnique_id_uid[OF u(1)] u(1)
    by (auto simp: wf_db_def list_all_iff findUnique_id_def find_Some_iff)
  moreover have "distinct (map uid (users d'))"
    using assms(1) ids by (simp add: wf_db_def)
  ultimately show ?thesis
    by (simp add: wf_db_def)
qed

section \<open>The sample states, evaluated\<close>

lemma sample_lower:
  "toLowerCase ''a@b.com'' = ''a@b.com''"
  "toLowerCase ''A@b.com'' = ''a@b.com''"
  "toLowerCase ''A@B.com'' = ''a@b.com''"
  "toLowerCase ''A@B.COM'' = ''a@b.com''"
  "toLowerCase ''C@D.org'' = ''c@d.org''"
  "toLowerCase ''c@d.org'' = ''c@d.org''"
  "toLowerCase ''Bob@X.org'' = ''bob@x.org''"
  "toLowerCase ''bob@x.org'' = ''bob@x.org''"
  "toLowerCase ''nobody@b.com'' = ''nobody@b.com''"
  "toLowerCase ''male'' = ''male''"
  "toLowerCase ''Female'' = ''female''"
  by (simp_all add: toLowerCase_def lower_char_def del: One_nat_def)

lemma sample_valid_email:
  "isValidEmail ''a@b.com''" "isValidEmail ''A@B.com''" "isValidEmail ''A@B.COM''"
  "isValidEmail ''C@D.org''" "isValidEmail ''c@d.org''" "isValidEmail ''Bob@X.org''"
  "isValidEmail ''nobody@b.com''"
  by (simp_all add: isValidEmail_def is_space_def del: One_nat_def)

lemma sample_valid_gender: "isValidGender ''male''" "isValidGender ''Female''"
  by (simp_all add: isValidGender_def sample_lower del: One_nat_def)

lemma sample_signup_valid:
  "truthy_s (s_name sample_signup)" "truthy_s (s_email sample_signup)"
  "truthy_s (s_password sample_signup)" "isValidEmail (str_of (s_email sample_signup))"
  "6 \<le> length (str_of (s_password sample_signup))"
  "\<not> age_rejected X (s_age sample_signup)" "\<not> gender_rejected (s_gender sample_signup)"
  "s_file sample_signup = None"
  "toLowerCase (str_of (s_email sample_signup)) = ''a@b.com''"
  by (simp_all add: sample_signup_def sample_valid_email sample_valid_gender sample_lower
      age_rejected_def gender_rejected_def del: One_nat_def)

lemmas store_defs =
  findUnique_email_def findUnique_id_def email_taken_def googleId_taken_def
  prisma_create_def prisma_update_def Let_def

lemma ann_db_eq: "ann_db = \<lparr>users = [ann_row], next_id = 2\<rparr>"
  by (simp add: ann_db_def signup_def sample_signup_valid store_defs empty_db_def ann_row_def del: One_nat_def)
    (simp add: sample_signup_def sample_ext_def age_col_def gender_col_def sample_lower)

lemma bob_db_eq: "bob_db = \<lparr>users = [bob_row], next_id = 2\<rparr>"
  by (simp add: bob_db_def google_verify_def bob_profile_def store_defs empty_db_def bob_row_def del: One_nat_def)

lemma upper_db_eq: "upper_db = \<lparr>users = [upper_row], next_id = 2\<rparr>"
  by (simp add: upper_db_def google_verify_def upper_profile_def store_defs empty_db_def
      upper_row_def del: One_nat_def)

lemma sample_find:
  "findUnique_id 1 ann_db = Some ann_row" "findUnique_id 1 bob_db = Some bob_row"
  "findUnique_email ''a@b.com'' ann_db = Some ann_row"
  "findUnique_email ''bob@x.org'' bob_db = Some bob_row"
  "findUnique_email ''nobody@b.com'' ann_db = None"
  "findUnique_email ''A@b.com'' ann_db = None"
  "findUnique_email ''bob@x.org'' ann_db = None"
  "findUnique_email ''c@d.org'' ann_db = None"
  "findUnique_email ''a@b.com'' upper_db = None"
  "findUnique_email ''ann@new.org'' upper_db = None"
  by (simp_all add: ann_db_eq bob_db_eq upper_db_eq findUnique_id_def findUnique_email_def
      ann_row_def bob_row_def upper_row_def del: One_nat_def)

lemma sample_wf: "wf_db ann_db" "flags_ok ann_db" "emails_lower ann_db" "emails_distinct_ci ann_db"
  by (simp_all add: ann_db_eq wf_db_def flags_ok_def emails_lower_def emails_distinct_ci_def
      profile_flag_ok_def ann_row_def sample_lower del: One_nat_def)

lemma upper_hash_db_eq: "upper_hash_db = \<lparr>users = [upper_hash_row], next_id = 2\<rparr>"
  by (simp add: upper_hash_db_def complete_profile_def upper_complete_def bearer_token_def
      isValidGender_def toLowerCase_def lower_char_def age_col_def upper_db_eq store_defs upper_row_def
      upper_hash_row_def sample_ext_def list_all_iff del: One_nat_def)

lemma not_registered_no_exact: "\<not> registered_ci e d \<Longrightarrow> findUnique_email e d = None"
  by (auto simp: registered_ci_def findUnique_email_def list_ex_iff find_None_iff)

section \<open>The profile-completion flag\<close>

text \<open>
  C1. After every state-changing operation every account's \<open>isProfileComplete\<close> should
  equal "age is set and gender is set". \<open>PUT /profile\<close> breaks this: it leaves a stored
  age and gender in place when the request omits them (\<open>undefined\<close> in the update), but
  computes the flag from the request alone. For every account whose age and gender are
  stored, a profile update that carries only a name succeeds, keeps both fields and
  clears the flag.
\<close>

theorem put_profile_name_only_clears_flag:
  assumes "findUnique_id i d = Some u" "age u \<noteq> None" "gender u \<noteq> None"
    and "truthy_s (u_name r)" "\<not> truthy (u_age r)" "\<not> truthy_s (u_gender r)" "u_file r = None"
  shows "\<exists>u'. status_of (fst (put_profile X now (Some i) r d)) = 200 \<and>
              findUnique_id i (snd (put_profile X now (Some i) r d)) = Some u' \<and>
              age u' = age u \<and> gender u' = gender u \<and>
              isProfileComplete u' = False \<and> \<not> profile_flag_ok u'"
proof -
  let ?f = "\<lambda>x. x\<lparr>name := str_of (u_name r),
                  age := (case age_col X (u_age r) of None \<Rightarrow> age x | Some n \<Rightarrow> Some n),
                  gender := (case gender_col (u_gender r) of None \<Rightarrow> gender x | Some g \<Rightarrow> Some g),
                  profilePicture := profilePicture u,
                  isProfileComplete := (truthy (u_age r) \<and> truthy_s (u_gender r))\<rparr>"
  let ?u' = "(?f u)\<lparr>updatedAt := now\<rparr>"
  obtain d' where upd: "prisma_update now i ?f d = Some (?u', d')"
    and fnd: "findUnique_id i d' = Some ?u'"
    using prisma_update_same_googleId[OF assms(1), of ?f now] by auto
  have put: "snd (put_profile X now (Some i) r d) = d'"
    "status_of (fst (put_profile X now (Some i) r d)) = 200"
    using assms upd by (simp_all add: put_profile_def age_rejected_def gender_rejected_def)
  have cols: "age_col X (u_age r) = None" "gender_col (u_gender r) = None"
    using assms by (simp_all add: age_col_def gender_col_def)
  show ?thesis
    using assms(2,3,5,6) fnd cols by (simp add: put profile_flag_ok_def)
qed

theorem put_profile_name_only_clears_flag_witness:
  "findUnique_id 1 ann_db = Some ann_row \<and> age ann_row = Some 25 \<and>
   gender ann_row = Some ''male'' \<and> flags_ok ann_db \<and>
   name_only = \<lparr>u_name = Some ''Ann B'', u_age = JUndefined, u_gender = None, u_file = None\<rparr> \<and>
   (\<exists>u'. status_of (fst (put_profile sample_ext 9 (Some 1) name_only ann_db)) = 200 \<and>
         findUnique_id 1 (snd (put_profile sample_ext 9 (Some 1) name_only ann_db)) = Some u' \<and>
         age u' = age ann_row \<and> gender u' = gender ann_row \<and>
         isProfileComplete u' = False \<and> \<not> profile_flag_ok u') \<and>
   snd (put_profile sample_ext 9 (Some 1) name_only ann_db) =
     \<lparr>users = [ann_row\<lparr>name := ''Ann B'', isProfileComplete := False, updatedAt := 9\<rparr>],
      next_id = 2\<rparr> \<and>
   \<not> flags_ok (snd (put_profile sample_ext 9 (Some 1) name_only ann_db))"
proof -
  have row: "age ann_row = Some 25" "gender ann_row = Some ''male''"
    by (simp_all add: ann_row_def del: One_nat_def)
  have h: "age ann_row \<noteq> None" "gender ann_row \<noteq> None"
    "truthy_s (u_name name_only)" "\<not> truthy (u_age name_only)" "\<not> truthy_s (u_gender name_only)"
    "u_file name_only = None"
    by (simp_all add: ann_row_def name_only_def del: One_nat_def)
  note t = put_profile_name_only_clears_flag[OF sample_find(1) h, of sample_ext 9]
  have ev: "snd (put_profile sample_ext 9 (Some 1) name_only ann_db) =
     \<lparr>users = [ann_row\<lparr>name := ''Ann B'', isProfileComplete := False, updatedAt := 9\<rparr>],
      next_id = 2\<rparr>"
    by (simp add: put_profile_def name_only_def age_rejected_def gender_rejected_def age_col_def
        gender_col_def ann_db_eq store_defs ann_row_def del: One_nat_def)
  have bad: "\<not> flags_ok (snd (put_profile sample_ext 9 (Some 1) name_only ann_db))"
    by (simp add: ev flags_ok_def profile_flag_ok_def ann_row_def del: One_nat_def)
  show ?thesis
    by (intro conjI) (fact sample_find(1) row sample_wf(2) name_only_def t ev bad)+
qed

section \<open>Uniqueness of emails up to letter case\<close>

text \<open>
  C2. Any two accounts should have emails that differ case-insensitively, and signup and
  federated login should preserve this. The Google verify callback breaks it: it looks
  the account up by the email exactly as the provider reports it and stores it without
  lower-casing, where signup and login lower-case. Whenever the reported email has no
  exact match but equals a stored email up to letter case (and the external id is
  free), the callback adds a second account, and the emails are no longer distinct up to
  case.
\<close>

theorem google_verify_breaks_email_uniqueness:
  assumes "first_value (p_emails P) = Some (Some e)" "e \<noteq> []" "p_photos P \<noteq> Some []"
    and "findUnique_email e d = None" "registered_ci e d"
    and "\<not> googleId_taken (Some (p_id P)) d"
  shows "length (users (snd (google_verify now P d))) = Suc (length (users d)) \<and>
         \<not> emails_distinct_ci (snd (google_verify now P d))"
proof -
  obtain photo where photo: "first_value (p_photos P) = Some photo"
    using assms(3) by (cases "p_photos P"; cases "the (p_photos P)") auto
  let ?u = "\<lparr>uid = next_id d, name = p_displayName P, email = e, password = None, age = None,
             gender = None, profilePicture = photo, provider = ''google'',
             googleId = Some (p_id P), isProfileComplete = False, createdAt = now,
             updatedAt = now\<rparr>"
  have "google_verify now P d = (Inr ?u, \<lparr>users = users d @ [?u], next_id = Suc (next_id d)\<rparr>)"
    using assms photo findUnique_email_None_not_taken[OF assms(4)]
    by (simp add: google_verify_def prisma_create_def Let_def)
  moreover have "toLowerCase e \<in> set (map (\<lambda>u. toLowerCase (email u)) (users d))"
    using assms(5) by (force simp: registered_ci_def list_ex_iff image_iff)
  ultimately show ?thesis
    by (simp add: emails_distinct_ci_def)
qed

theorem google_verify_breaks_email_uniqueness_witness:
  "emails_distinct_ci ann_db \<and> ann_db = \<lparr>users = [ann_row], next_id = 2\<rparr> \<and>
   first_value (p_emails upper_profile) = Some (Some ''A@b.com'') \<and>
   findUnique_email ''A@b.com'' ann_db = None \<and> registered_ci ''A@b.com'' ann_db \<and>
   \<not> googleId_taken (Some (p_id upper_profile)) ann_db \<and>
   snd (google_verify 7 upper_profile ann_db) =
     \<lparr>users = [ann_row, upper_row\<lparr>uid := 2, createdAt := 7, updatedAt := 7\<rparr>], next_id = 3\<rparr> \<and>
   length (users (snd (google_verify 7 upper_profile ann_db))) = Suc (length (users ann_db)) \<and>
   \<not> emails_distinct_ci (snd (google_verify 7 upper_profile ann_db))"
proof -
  have h: "first_value (p_emails upper_profile) = Some (Some ''A@b.com'')" "''A@b.com'' \<noteq> []"
    "p_photos upper_profile \<noteq> Some []" "findUnique_email ''A@b.com'' ann_db = None"
    "registered_ci ''A@b.com'' ann_db" "\<not> googleId_taken (Some (p_id upper_profile)) ann_db"
    by (simp_all add: upper_profile_def registered_ci_def googleId_taken_def
        findUnique_email_def ann_db_eq ann_row_def sample_lower del: One_nat_def)
  note t = google_verify_breaks_email_uniqueness[OF h, of 7]
  have ev: "snd (google_verify 7 upper_profile ann_db) =
     \<lparr>users = [ann_row, upper_row\<lparr>uid := 2, createdAt := 7, updatedAt := 7\<rparr>], next_id = 3\<rparr>"
    by (simp add: google_verify_def upper_profile_def ann_db_eq store_defs ann_row_def
        upper_row_def del: One_nat_def)
  show ?thesis
    by (intro conjI) (fact sample_wf(4) ann_db_eq h ev conjunct1[OF t] conjunct2[OF t])+
qed

text \<open>
  C3. A signup whose email equals a registered email up to letter case should fail with
  \<open>DuplicateEmail\<close> and change nothing. Signup compares the lower-cased email with the
  stored strings exactly, so this holds only while every stored email is lower-cased, and
  the Google verify callback stores the provider's spelling (the defect of C2). For every
  valid signup whose email is registered up to case but whose lower-cased form is not
  stored, signup answers 201 and adds an account.
\<close>

theorem signup_succeeds_beside_mixed_case_email:
  assumes "truthy_s (s_name r)" "truthy_s (s_email r)" "truthy_s (s_password r)"
    and "isValidEmail (str_of (s_email r))" "6 \<le> length (str_of (s_password r))"
    and "\<not> age_rejected X (s_age r)" "\<not> gender_rejected (s_gender r)" "s_file r = None"
    and "registered_ci (str_of (s_email r)) d"
    and "findUnique_email (toLowerCase (str_of (s_email r))) d = None"
  shows "status_of (fst (signup X now r d)) = 201 \<and>
         error_kind (fst (signup X now r d)) = None \<and>
         length (users (snd (signup X now r d))) = Suc (length (users d))"
  using assms findUnique_email_None_not_taken[OF assms(10)]
  by (simp add: signup_def prisma_create_def googleId_taken_def Let_def error_kind_def)

theorem signup_succeeds_beside_mixed_case_email_witness:
  "upper_db = \<lparr>users = [upper_row], next_id = 2\<rparr> \<and> email upper_row = ''A@b.com'' \<and>
   s_email sample_signup = Some ''a@b.com'' \<and>
   registered_ci (str_of (s_email sample_signup)) upper_db \<and>
   findUnique_email (toLowerCase (str_of (s_email sample_signup))) upper_db = None \<and>
   status_of (fst (signup sample_ext 7 sample_signup upper_db)) = 201 \<and>
   error_kind (fst (signup sample_ext 7 sample_signup upper_db)) = None \<and>
   length (users (snd (signup sample_ext 7 sample_signup upper_db))) = Suc (length (users upper_db)) \<and>
   map email (users (snd (signup sample_ext 7 sample_signup upper_db))) = [''A@b.com'', ''a@b.com'']"
proof -
  have row: "email upper_row = ''A@b.com''" "s_email sample_signup = Some ''a@b.com''"
    by (simp_all add: upper_row_def sample_signup_def del: One_nat_def)
  have h: "registered_ci (str_of (s_email sample_signup)) upper_db"
    "findUnique_email (toLowerCase (str_of (s_email sample_signup))) upper_db = None"
    by (simp_all add: registered_ci_def upper_db_eq upper_row_def sample_signup_def sample_lower
        findUnique_email_def del: One_nat_def)
  note t = signup_succeeds_beside_mixed_case_email
      [OF sample_signup_valid(1-8) h, of sample_ext 7]
  have ev: "map email (users (snd (signup sample_ext 7 sample_signup upper_db))) =
      [''A@b.com'', ''a@b.com'']"
    by (simp add: signup_def sample_signup_def sample_valid_email sample_valid_gender
        sample_lower age_rejected_def gender_rejected_def age_col_def gender_col_def
        upper_db_eq upper_row_def store_defs sample_ext_def del: One_nat_def)
  show ?thesis
    by (intro conjI)
      (fact upper_db_eq row h ev conjunct1[OF t] conjunct1[OF conjunct2[OF t]]
        conjunct2[OF conjunct2[OF t]])+
qed

section \<open>Local login\<close>

text \<open>
  C4. Local login should be refused with \<open>InvalidCredentials\<close> exactly when the account is
  absent, has no stored hash, or the secret does not match the hash. The handler looks the
  account up under the lower-cased request email by exact match, so an account whose
  email the Google verify callback stored with capital letters (the defect of C2) is
  never found. For every login that passes the input checks, names an email that is
  stored, exactly as typed, on an account with a hash that the secret matches, while the
  lower-cased form of the email is not stored, login answers 401 "Invalid credentials":
  the account is present, has a hash and the secret matches, and the login is refused.
\<close>

theorem login_refuses_stored_mixed_case_account:
  assumes "truthy_s (l_email r)" "truthy_s (l_password r)" "isValidEmail (str_of (l_email r))"
    and "findUnique_email (str_of (l_email r)) d = Some u"
    and "truthy_s (password u)"
    and "bcrypt_compare X (str_of (l_password r)) (str_of (password u))"
    and "findUnique_email (toLowerCase (str_of (l_email r))) d = None"
  shows "credentials_match X r d \<and>
         login X r d = error_json 401 ''Invalid credentials'' \<and>
         error_kind (login X r d) = Some InvalidCredentials"
proof -
  have "u \<in> set (users d)" "email u = str_of (l_email r)"
    using assms(4) by (auto simp: findUnique_email_def find_Some_iff)
  then have "credentials_match X r d"
    using assms(5,6) by (auto simp: credentials_match_def list_ex_iff intro!: bexI[of _ u])
  moreover have "login X r d = error_json 401 ''Invalid credentials''"
    using assms by (simp add: login_def)
  moreover have "error_kind (error_json 401 ''Invalid credentials'') = Some InvalidCredentials"
    by (simp add: error_kind_def error_json_def)
  ultimately show ?thesis by simp
qed

theorem login_refuses_stored_mixed_case_account_witness:
  "upper_db = snd (google_verify 5 upper_profile empty_db) \<and>
   upper_hash_db = snd (complete_profile sample_ext 8 upper_complete upper_db) \<and>
   upper_hash_db = \<lparr>users = [upper_hash_row], next_id = 2\<rparr> \<and>
   email upper_hash_row = ''A@b.com'' \<and> password upper_hash_row = Some ''$2a$12$hunter22'' \<and>
   bcrypt_compare sample_ext ''hunter22'' ''$2a$12$hunter22'' \<and>
   findUnique_email ''A@b.com'' upper_hash_db = Some upper_hash_row \<and>
   findUnique_email (toLowerCase ''A@b.com'') upper_hash_db = None \<and>
   credentials_match sample_ext \<lparr>l_email = Some ''A@b.com'', l_password = Some ''hunter22''\<rparr>
     upper_hash_db \<and>
   login sample_ext \<lparr>l_email = Some ''A@b.com'', l_password = Some ''hunter22''\<rparr> upper_hash_db
     = error_json 401 ''Invalid credentials'' \<and>
   error_kind (login sample_ext \<lparr>l_email = Some ''A@b.com'', l_password = Some ''hunter22''\<rparr>
     upper_hash_db) = Some InvalidCredentials"
proof -
  let ?r = "\<lparr>l_email = Some ''A@b.com'', l_password = Some ''hunter22''\<rparr>"
  have row: "email upper_hash_row = ''A@b.com''"
    "password upper_hash_row = Some ''$2a$12$hunter22''"
    "bcrypt_compare sample_ext ''hunter22'' ''$2a$12$hunter22''"
    by (simp_all add: upper_hash_row_def sample_ext_def del: One_nat_def)
  have f: "findUnique_email ''A@b.com'' upper_hash_db = Some upper_hash_row"
    "findUnique_email (toLowerCase ''A@b.com'') upper_hash_db = None"
    by (simp_all add: upper_hash_db_eq findUnique_email_def upper_hash_row_def sample_lower
        del: One_nat_def)
  have h: "truthy_s (l_email ?r)" "truthy_s (l_password ?r)" "isValidEmail (str_of (l_email ?r))"
    "findUnique_email (str_of (l_email ?r)) upper_hash_db = Some upper_hash_row"
    "truthy_s (password upper_hash_row)"
    "bcrypt_compare sample_ext (str_of (l_password ?r)) (str_of (password upper_hash_row))"
    "findUnique_email (toLowerCase (str_of (l_email ?r))) upper_hash_db = None"
    using f row by (simp_all add: isValidEmail_def is_space_def del: One_nat_def)
  note t = login_refuses_stored_mixed_case_account[OF h]
  show ?thesis
    by (intro conjI)
      (fact upper_db_def upper_hash_db_def upper_hash_db_eq row f conjunct1[OF t]
        conjunct1[OF conjunct2[OF t]] conjunct2[OF conjunct2[OF t]])+
qed

text \<open>
  C9. A login naming an email under which no account is stored and a login with a wrong
  secret for an account that has a hash get the same response, status 401 with the
  message "Invalid credentials": the result does not tell an unregistered email from a
  wrong password.
\<close>

theorem login_absent_and_wrong_secret_same_response:
  assumes "truthy_s (l_email r1)" "truthy_s (l_password r1)" "isValidEmail (str_of (l_email r1))"
    and "truthy_s (l_email r2)" "truthy_s (l_password r2)" "isValidEmail (str_of (l_email r2))"
    and "findUnique_email (toLowerCase (str_of (l_email r1))) d1 = None"
    and "findUnique_email (toLowerCase (str_of (l_email r2))) d2 = Some u"
    and "truthy_s (password u)"
    and "\<not> bcrypt_compare X (str_of (l_password r2)) (str_of (password u))"
  shows "login X r1 d1 = login X r2 d2 \<and>
         login X r1 d1 = Response 401 (JObj [(''error'', JStr ''Invalid credentials'')])"
  using assms by (simp add: login_def error_json_def)

theorem login_absent_and_wrong_secret_same_response_witness:
  "findUnique_email (toLowerCase ''nobody@b.com'') ann_db = None \<and>
   findUnique_email (toLowerCase ''a@b.com'') ann_db = Some ann_row \<and>
   password ann_row = Some ''$2a$12$abcdef'' \<and>
   \<not> bcrypt_compare sample_ext ''wrong-secret'' ''$2a$12$abcdef'' \<and>
   login sample_ext \<lparr>l_email = Some ''nobody@b.com'', l_password = Some ''abcdef''\<rparr> ann_db =
   login sample_ext \<lparr>l_email = Some ''a@b.com'', l_password = Some ''wrong-secret''\<rparr> ann_db \<and>
   login sample_ext \<lparr>l_email = Some ''nobody@b.com'', l_password = Some ''abcdef''\<rparr> ann_db =
     Response 401 (JObj [(''error'', JStr ''Invalid credentials'')])"
proof -
  let ?r1 = "\<lparr>l_email = Some ''nobody@b.com'', l_password = Some ''abcdef''\<rparr>"
  let ?r2 = "\<lparr>l_email = Some ''a@b.com'', l_password = Some ''wrong-secret''\<rparr>"
  have f: "findUnique_email (toLowerCase ''nobody@b.com'') ann_db = None"
    "findUnique_email (toLowerCase ''a@b.com'') ann_db = Some ann_row"
    by (simp_all add: sample_lower sample_find del: One_nat_def)
  have row: "password ann_row = Some ''$2a$12$abcdef''"
    "\<not> bcrypt_compare sample_ext ''wrong-secret'' ''$2a$12$abcdef''"
    by (simp_all add: ann_row_def sample_ext_def del: One_nat_def)
  have h: "truthy_s (l_email ?r1)" "truthy_s (l_password ?r1)" "isValidEmail (str_of (l_email ?r1))"
    "truthy_s (l_email ?r2)" "truthy_s (l_password ?r2)" "isValidEmail (str_of (l_email ?r2))"
    "findUnique_email (toLowerCase (str_of (l_email ?r1))) ann_db = None"
    "findUnique_email (toLowerCase (str_of (l_email ?r2))) ann_db = Some ann_row"
    "truthy_s (password ann_row)"
    "\<not> bcrypt_compare sample_ext (str_of (l_password ?r2)) (str_of (password ann_row))"
    using f row by (simp_all add: sample_valid_email del: One_nat_def)
  note t = login_absent_and_wrong_secret_same_response[OF h]
  show ?thesis
    by (intro conjI) (fact f row conjunct1[OF t] conjunct2[OF t])+
qed

section \<open>The stored hash in responses\<close>

text \<open>
  C10. \<open>GET /profile\<close> selects the \<open>password\<close> column: for an authenticated account
  with a stored hash the response is a 200 whose \<open>user\<close> object carries the hash under
  \<open>password\<close>. The responses of signup and login never carry a \<open>password\<close> field.
\<close>

theorem get_profile_includes_password:
  "(findUnique_id i d = Some u \<and> password u = Some h \<longrightarrow>
      status_of (get_profile (Some i) d) = 200 \<and>
      response_user_field ''password'' (get_profile (Some i) d) = Some (JStr h)) \<and>
   response_user_field ''password'' (fst (signup X now r d)) = None \<and>
   response_user_field ''password'' (login X r' d) = None"
  by (auto simp: get_profile_def signup_def login_def response_user_field_def error_json_def
      select_user_def user_fields_def split: option.splits)

theorem get_profile_includes_password_witness:
  "findUnique_id 1 ann_db = Some ann_row \<and> password ann_row = Some ''$2a$12$abcdef'' \<and>
   status_of (get_profile (Some 1) ann_db) = 200 \<and>
   response_user_field ''password'' (get_profile (Some 1) ann_db) = Some (JStr ''$2a$12$abcdef'') \<and>
   status_of (fst (signup sample_ext 5 sample_signup empty_db)) = 201 \<and>
   response_user_field ''password'' (fst (signup sample_ext 5 sample_signup empty_db)) = None \<and>
   status_of (login sample_ext \<lparr>l_email = Some ''a@b.com'', l_password = Some ''abcdef''\<rparr> ann_db) = 200 \<and>
   response_user_field ''password''
     (login sample_ext \<lparr>l_email = Some ''a@b.com'', l_password = Some ''abcdef''\<rparr> ann_db) = None"
proof -
  let ?ra = "\<lparr>l_email = Some ''a@b.com'', l_password = Some ''abcdef''\<rparr>"
  have row: "password ann_row = Some ''$2a$12$abcdef''"
    by (simp add: ann_row_def del: One_nat_def)
  note t1 = get_profile_includes_password
      [of 1 ann_db ann_row "''$2a$12$abcdef''" sample_ext 5 sample_signup ?ra]
  note t2 = get_profile_includes_password
      [of 1 empty_db ann_row "''$2a$12$abcdef''" sample_ext 5 sample_signup ?ra]
  have g: "status_of (get_profile (Some 1) ann_db) = 200"
    "response_user_field ''password'' (get_profile (Some 1) ann_db) = Some (JStr ''$2a$12$abcdef'')"
    using t1 sample_find(1) row by (simp_all del: One_nat_def)
  have l: "response_user_field ''password'' (login sample_ext ?ra ann_db) = None"
    using t1 by (simp del: One_nat_def)
  have s: "response_user_field ''password'' (fst (signup sample_ext 5 sample_signup empty_db)) = None"
    using t2 by (simp del: One_nat_def)
  have s201: "status_of (fst (signup sample_ext 5 sample_signup empty_db)) = 201"
    by (simp add: signup_def sample_signup_def sample_valid_email sample_valid_gender
        sample_lower age_rejected_def gender_rejected_def age_col_def gender_col_def
        store_defs empty_db_def sample_ext_def del: One_nat_def)
  have l200: "status_of (login sample_ext ?ra ann_db) = 200"
    by (simp add: login_def sample_valid_email sample_lower sample_find del: One_nat_def)
      (simp add: ann_row_def sample_ext_def)
  show ?thesis
    by (intro conjI) (fact sample_find(1) row g l s s201 l200)+
qed

section \<open>Profile completion\<close>

text \<open>
  C6. A \<open>complete-profile\<close> request whose age is not a number of the range 13..120 (for
  example 200) changes nothing in the table. When the request carries a token that
  verifies, it is answered with status 400, a \<open>ValidationError\<close>: "Age must be between 13
  and 120" when age and gender are both present, "Age and gender are required"
  otherwise. The checks run before the account is read or written.
\<close>

theorem complete_profile_rejects_invalid_age:
  assumes "\<not> isValidAge (Number_js X (c_age r))"
  shows "snd (complete_profile X now r d) = d \<and>
         (truthy_s (bearer_token (c_authorization r)) \<and>
          jwt_verify X (str_of (bearer_token (c_authorization r))) = Some i \<longrightarrow>
            status_of (fst (complete_profile X now r d)) = 400 \<and>
            error_kind (fst (complete_profile X now r d)) = Some ValidationError \<and>
            (truthy (c_age r) \<and> truthy_s (c_gender r) \<longrightarrow>
               fst (complete_profile X now r d) = error_json 400 ''Age must be between 13 and 120''))"
  using assms
  by (auto simp: complete_profile_def error_json_def error_kind_def split: option.splits)

theorem complete_profile_rejects_invalid_age_witness:
  "\<not> isValidAge (Number_js sample_ext (JNumber 200)) \<and>
   bearer_token (Some ''Bearer t'') = Some ''t'' \<and> jwt_verify sample_ext ''t'' = Some 1 \<and>
   findUnique_id 1 bob_db = Some bob_row \<and>
   snd (complete_profile sample_ext 8
     \<lparr>c_authorization = Some ''Bearer t'', c_age = JNumber 200, c_gender = Some ''male'',
      c_password = None\<rparr> bob_db) = bob_db \<and>
   fst (complete_profile sample_ext 8
     \<lparr>c_authorization = Some ''Bearer t'', c_age = JNumber 200, c_gender = Some ''male'',
      c_password = None\<rparr> bob_db) = error_json 400 ''Age must be between 13 and 120'' \<and>
   error_kind (fst (complete_profile sample_ext 8
     \<lparr>c_authorization = Some ''Bearer t'', c_age = JNumber 200, c_gender = Some ''male'',
      c_password = None\<rparr> bob_db)) = Some ValidationError"
proof -
  let ?r = "\<lparr>c_authorization = Some ''Bearer t'', c_age = JNumber 200, c_gender = Some ''male'',
             c_password = None\<rparr>"
  have inv: "\<not> isValidAge (Number_js sample_ext (JNumber 200))"
    by (simp del: One_nat_def)
  have h: "\<not> isValidAge (Number_js sample_ext (c_age ?r))"
    by (simp del: One_nat_def)
  have tok: "bearer_token (Some ''Bearer t'') = Some ''t''" "jwt_verify sample_ext ''t'' = Some 1"
    by (simp_all add: bearer_token_def sample_ext_def del: One_nat_def)
  note t = complete_profile_rejects_invalid_age[OF h, of 8 bob_db 1]
  have c: "snd (complete_profile sample_ext 8 ?r bob_db) = bob_db"
    "fst (complete_profile sample_ext 8 ?r bob_db) = error_json 400 ''Age must be between 13 and 120''"
    "error_kind (fst (complete_profile sample_ext 8 ?r bob_db)) = Some ValidationError"
    using t tok by auto
  show ?thesis
    by (intro conjI) (fact inv tok sample_find(2) c)+
qed

section \<open>Changing the secret\<close>

text \<open>
  C7. For an authenticated account and a new secret of at least six characters: a
  federated account without a stored hash gets the new hash whatever the request holds
  as current secret, also nothing; an account with a stored hash is refused with
  "Current password is required" (a \<open>ValidationError\<close>) when the current secret is
  missing, and with "Current password is incorrect" (\<open>InvalidCredentials\<close>) when it
  does not match the hash. Neither refusal changes the table.
\<close>

theorem change_password_current_secret:
  assumes "truthy_s (newPassword r)" "6 \<le> length (str_of (newPassword r))"
    and "findUnique_id i d = Some u"
  shows "(provider u = ''google'' \<and> \<not> truthy_s (password u) \<longrightarrow>
            (\<exists>u' d'. change_password X now (Some i) r d =
                 (Response 200 (JObj [(''message'', JStr ''Password set successfully'')]), d') \<and>
               findUnique_id i d' = Some u' \<and>
               password u' = Some (bcrypt_hash X (str_of (newPassword r))))) \<and>
         (truthy_s (password u) \<and> \<not> truthy_s (currentPassword r) \<longrightarrow>
            change_password X now (Some i) r d = (error_json 400 ''Current password is required'', d) \<and>
            error_kind (fst (change_password X now (Some i) r d)) = Some ValidationError) \<and>
         (truthy_s (password u) \<and> truthy_s (currentPassword r) \<and>
          \<not> bcrypt_compare X (str_of (currentPassword r)) (str_of (password u)) \<longrightarrow>
            change_password X now (Some i) r d = (error_json 400 ''Current password is incorrect'', d) \<and>
            error_kind (fst (change_password X now (Some i) r d)) = Some InvalidCredentials)"
proof -
  let ?f = "\<lambda>u::user. u\<lparr>password := Some (bcrypt_hash X (str_of (newPassword r)))\<rparr>"
  obtain d' where upd: "prisma_update now i ?f d = Some ((?f u)\<lparr>updatedAt := now\<rparr>, d')"
    and fnd: "findUnique_id i d' = Some ((?f u)\<lparr>updatedAt := now\<rparr>)"
    using prisma_update_same_googleId[OF assms(3), of ?f now] by auto
  have first: "provider u = ''google'' \<and> \<not> truthy_s (password u) \<longrightarrow>
            (\<exists>u' d'. change_password X now (Some i) r d =
                 (Response 200 (JObj [(''message'', JStr ''Password set successfully'')]), d') \<and>
               findUnique_id i d' = Some u' \<and>
               password u' = Some (bcrypt_hash X (str_of (newPassword r))))"
    using assms upd fnd by (simp add: change_password_def)
  have rest: "truthy_s (password u) \<longrightarrow>
      (\<not> truthy_s (currentPassword r) \<longrightarrow>
         change_password X now (Some i) r d = (error_json 400 ''Current password is required'', d)) \<and>
      (truthy_s (currentPassword r) \<and>
          \<not> bcrypt_compare X (str_of (currentPassword r)) (str_of (password u)) \<longrightarrow>
         change_password X now (Some i) r d = (error_json 400 ''Current password is incorrect'', d))"
    using assms by (simp add: change_password_def)
  have kinds: "error_kind (error_json 400 ''Current password is required'') = Some ValidationError"
    "error_kind (error_json 400 ''Current password is incorrect'') = Some InvalidCredentials"
    by (simp_all add: error_kind_def error_json_def)
  show ?thesis using first rest kinds by simp
qed

theorem change_password_current_secret_witness:
  "findUnique_id 1 bob_db = Some bob_row \<and> provider bob_row = ''google'' \<and>
   password bob_row = None \<and>
   (\<exists>u' d'. change_password sample_ext 9 (Some 1)
          \<lparr>currentPassword = None, newPassword = Some ''hunter22''\<rparr> bob_db =
        (Response 200 (JObj [(''message'', JStr ''Password set successfully'')]), d') \<and>
      findUnique_id 1 d' = Some u' \<and>
      password u' = Some (bcrypt_hash sample_ext ''hunter22'')) \<and>
   change_password sample_ext 9 (Some 1)
          \<lparr>currentPassword = None, newPassword = Some ''hunter22''\<rparr> bob_db
     = (Response 200 (JObj [(''message'', JStr ''Password set successfully'')]),
        \<lparr>users = [bob_row\<lparr>password := Some ''$2a$12$hunter22'', updatedAt := 9\<rparr>], next_id = 2\<rparr>) \<and>
   findUnique_id 1 ann_db = Some ann_row \<and> password ann_row = Some ''$2a$12$abcdef'' \<and>
   change_password sample_ext 9 (Some 1)
          \<lparr>currentPassword = None, newPassword = Some ''hunter22''\<rparr> ann_db
     = (error_json 400 ''Current password is required'', ann_db) \<and>
   \<not> bcrypt_compare sample_ext ''guess!'' ''$2a$12$abcdef'' \<and>
   change_password sample_ext 9 (Some 1)
          \<lparr>currentPassword = Some ''guess!'', newPassword = Some ''hunter22''\<rparr> ann_db
     = (error_json 400 ''Current password is incorrect'', ann_db)"
proof -
  let ?r = "\<lparr>currentPassword = None, newPassword = Some ''hunter22''\<rparr>"
  let ?g = "\<lparr>currentPassword = Some ''guess!'', newPassword = Some ''hunter22''\<rparr>"
  have h: "truthy_s (newPassword ?r)" "6 \<le> length (str_of (newPassword ?r))"
    and hg: "truthy_s (newPassword ?g)" "6 \<le> length (str_of (newPassword ?g))"
    by (simp_all del: One_nat_def)
  note tb = change_password_current_secret[OF h sample_find(2), of sample_ext 9]
  note ta = change_password_current_secret[OF h sample_find(1), of sample_ext 9]
  note tg = change_password_current_secret[OF hg sample_find(1), of sample_ext 9]
  have row: "provider bob_row = ''google''" "password bob_row = None"
    "password ann_row = Some ''$2a$12$abcdef''"
    "\<not> bcrypt_compare sample_ext ''guess!'' ''$2a$12$abcdef''"
    by (simp_all add: bob_row_def ann_row_def sample_ext_def del: One_nat_def)
  have b: "\<exists>u' d'. change_password sample_ext 9 (Some 1) ?r bob_db =
        (Response 200 (JObj [(''message'', JStr ''Password set successfully'')]), d') \<and>
      findUnique_id 1 d' = Some u' \<and>
      password u' = Some (bcrypt_hash sample_ext ''hunter22'')"
    using tb row(1,2) by (simp del: One_nat_def)
  have ev: "change_password sample_ext 9 (Some 1) ?r bob_db
     = (Response 200 (JObj [(''message'', JStr ''Password set successfully'')]),
        \<lparr>users = [bob_row\<lparr>password := Some ''$2a$12$hunter22'', updatedAt := 9\<rparr>], next_id = 2\<rparr>)"
    by (simp add: change_password_def bob_db_eq store_defs bob_row_def sample_ext_def del: One_nat_def)
  have a: "change_password sample_ext 9 (Some 1) ?r ann_db
     = (error_json 400 ''Current password is required'', ann_db)"
    using ta row(3) by (simp del: One_nat_def)
  have g: "change_password sample_ext 9 (Some 1) ?g ann_db
     = (error_json 400 ''Current password is incorrect'', ann_db)"
    using tg row(3,4) by (simp del: One_nat_def)
  show ?thesis
    by (intro conjI) (fact sample_find(1,2) row b ev a g)+
qed

section \<open>Attaching and detaching the picture\<close>

text \<open>
  C8. For every stored account: deleting the profile picture when none is set is refused
  with "No profile picture to delete" (\<open>NothingToDelete\<close>) and leaves the table as it
  was; and a profile update that uploads a picture (a valid request whose upload returns a
  reference), followed by a delete, both succeed and leave the account's
  \<open>profilePicture\<close> unset, whatever it was before.
\<close>

theorem detach_picture_round_trip:
  assumes "findUnique_id i d = Some u"
  shows "(\<not> truthy_s (profilePicture u) \<longrightarrow>
            delete_profile_picture now (Some i) d = (error_json 400 ''No profile picture to delete'', d) \<and>
            error_kind (fst (delete_profile_picture now (Some i) d)) = Some NothingToDelete) \<and>
         (truthy_s (u_name r) \<and> \<not> age_rejected X (u_age r) \<and> \<not> gender_rejected (u_gender r) \<and>
          u_file r = Some img \<and> upload_stream X img = UploadResult (Some url) \<and> url \<noteq> [] \<longrightarrow>
            (\<exists>u1 u2.
               status_of (fst (put_profile X t1 (Some i) r d)) = 200 \<and>
               findUnique_id i (snd (put_profile X t1 (Some i) r d)) = Some u1 \<and>
               profilePicture u1 = Some url \<and>
               status_of (fst (delete_profile_picture t2 (Some i) (snd (put_profile X t1 (Some i) r d)))) = 200 \<and>
               findUnique_id i (snd (delete_profile_picture t2 (Some i) (snd (put_profile X t1 (Some i) r d))))
                 = Some u2 \<and>
               profilePicture u2 = None))"
proof -
  have none: "\<not> truthy_s (profilePicture u) \<longrightarrow>
            delete_profile_picture now (Some i) d = (error_json 400 ''No profile picture to delete'', d) \<and>
            error_kind (fst (delete_profile_picture now (Some i) d)) = Some NothingToDelete"
    using assms by (simp add: delete_profile_picture_def error_kind_def error_json_def)
  have round: "\<exists>u1 u2.
               status_of (fst (put_profile X t1 (Some i) r d)) = 200 \<and>
               findUnique_id i (snd (put_profile X t1 (Some i) r d)) = Some u1 \<and>
               profilePicture u1 = Some url \<and>
               status_of (fst (delete_profile_picture t2 (Some i) (snd (put_profile X t1 (Some i) r d)))) = 200 \<and>
               findUnique_id i (snd (delete_profile_picture t2 (Some i) (snd (put_profile X t1 (Some i) r d))))
                 = Some u2 \<and>
               profilePicture u2 = None"
    if ok: "truthy_s (u_name r)" "\<not> age_rejected X (u_age r)" "\<not> gender_rejected (u_gender r)"
      "u_file r = Some img" "upload_stream X img = UploadResult (Some url)" "url \<noteq> []"
  proof -
    let ?f = "\<lambda>u. u\<lparr>name := str_of (u_name r),
                    age := (case age_col X (u_age r) of None \<Rightarrow> age u | Some n \<Rightarrow> Some n),
                    gender := (case gender_col (u_gender r) of None \<Rightarrow> gender u | Some g \<Rightarrow> Some g),
                    profilePicture := Some url,
                    isProfileComplete := (truthy (u_age r) \<and> truthy_s (u_gender r))\<rparr>"
    let ?u1 = "(?f u)\<lparr>updatedAt := t1\<rparr>"
    obtain d1 where upd1: "prisma_update t1 i ?f d = Some (?u1, d1)"
      and fnd1: "findUnique_id i d1 = Some ?u1"
      using prisma_update_same_googleId[OF assms, of ?f t1] by auto
    have put: "put_profile X t1 (Some i) r d =
        (Response 200
           (JObj [(''message'', JStr ''Profile updated successfully''),
                  (''user'', JObj (select_user
                     [''id'', ''name'', ''email'', ''age'', ''gender'',
                      ''profilePicture'', ''provider'', ''createdAt'', ''updatedAt''] ?u1))]), d1)"
      using ok upd1 by (simp add: put_profile_def uploadImage_def)
    let ?g = "\<lambda>u::user. u\<lparr>profilePicture := None\<rparr>"
    let ?u2 = "(?g ?u1)\<lparr>updatedAt := t2\<rparr>"
    obtain d2 where upd2: "prisma_update t2 i ?g d1 = Some (?u2, d2)"
      and fnd2: "findUnique_id i d2 = Some ?u2"
      using prisma_update_same_googleId[OF fnd1, of ?g t2] by auto
    have del: "delete_profile_picture t2 (Some i) d1 =
        (Response 200
           (JObj [(''message'', JStr ''Profile picture deleted successfully''),
                  (''user'', JObj (select_user
                     [''id'', ''name'', ''email'', ''age'', ''gender'',
                      ''profilePicture'', ''provider'', ''createdAt'', ''updatedAt''] ?u2))]), d2)"
      using ok fnd1 upd2 by (simp add: delete_profile_picture_def)
    show ?thesis
      using fnd1 fnd2 by (simp add: put del)
  qed
  show ?thesis using none round by blast
qed

theorem detach_picture_round_trip_witness:
  "findUnique_id 1 ann_db = Some ann_row \<and> profilePicture ann_row = None \<and>
   delete_profile_picture 9 (Some 1) ann_db = (error_json 400 ''No profile picture to delete'', ann_db) \<and>
   error_kind (fst (delete_profile_picture 9 (Some 1) ann_db)) = Some NothingToDelete \<and>
   with_picture =
     \<lparr>u_name = Some ''Ann'', u_age = JUndefined, u_gender = None, u_file = Some ''img.png''\<rparr> \<and>
   upload_stream sample_ext ''img.png'' = UploadResult (Some ''https://res.cloudinary.com/img.png'') \<and>
   (\<exists>u1 u2.
      status_of (fst (put_profile sample_ext 10 (Some 1) with_picture ann_db)) = 200 \<and>
      findUnique_id 1 (snd (put_profile sample_ext 10 (Some 1) with_picture ann_db)) = Some u1 \<and>
      profilePicture u1 = Some ''https://res.cloudinary.com/img.png'' \<and>
      status_of (fst (delete_profile_picture 11 (Some 1)
        (snd (put_profile sample_ext 10 (Some 1) with_picture ann_db)))) = 200 \<and>
      findUnique_id 1 (snd (delete_profile_picture 11 (Some 1)
        (snd (put_profile sample_ext 10 (Some 1) with_picture ann_db)))) = Some u2 \<and>
      profilePicture u2 = None) \<and>
   snd (put_profile sample_ext 10 (Some 1) with_picture ann_db) =
     \<lparr>users = [ann_row\<lparr>profilePicture := Some ''https://res.cloudinary.com/img.png'',
                isProfileComplete := False, updatedAt := 10\<rparr>], next_id = 2\<rparr> \<and>
   snd (delete_profile_picture 11 (Some 1)
     (snd (put_profile sample_ext 10 (Some 1) with_picture ann_db))) =
     \<lparr>users = [ann_row\<lparr>isProfileComplete := False, updatedAt := 11\<rparr>], next_id = 2\<rparr>"
proof -
  note t = detach_picture_round_trip
      [OF sample_find(1), of 9 with_picture sample_ext "''img.png''"
        "''https://res.cloudinary.com/img.png''" 10 11]
  have row: "profilePicture ann_row = None"
    by (simp add: ann_row_def del: One_nat_def)
  have up: "upload_stream sample_ext ''img.png'' =
      UploadResult (Some ''https://res.cloudinary.com/img.png'')"
    by (simp add: sample_ext_def del: One_nat_def)
  have req: "truthy_s (u_name with_picture)" "\<not> age_rejected sample_ext (u_age with_picture)"
    "\<not> gender_rejected (u_gender with_picture)" "u_file with_picture = Some ''img.png''"
    by (simp_all add: with_picture_def age_rejected_def gender_rejected_def del: One_nat_def)
  have none: "delete_profile_picture 9 (Some 1) ann_db =
      (error_json 400 ''No profile picture to delete'', ann_db)"
    "error_kind (fst (delete_profile_picture 9 (Some 1) ann_db)) = Some NothingToDelete"
    using conjunct1[OF t] row by auto
  have round: "\<exists>u1 u2.
      status_of (fst (put_profile sample_ext 10 (Some 1) with_picture ann_db)) = 200 \<and>
      findUnique_id 1 (snd (put_profile sample_ext 10 (Some 1) with_picture ann_db)) = Some u1 \<and>
      profilePicture u1 = Some ''https://res.cloudinary.com/img.png'' \<and>
      status_of (fst (delete_profile_picture 11 (Some 1)
        (snd (put_profile sample_ext 10 (Some 1) with_picture ann_db)))) = 200 \<and>
      findUnique_id 1 (snd (delete_profile_picture 11 (Some 1)
        (snd (put_profile sample_ext 10 (Some 1) with_picture ann_db)))) = Some u2 \<and>
      profilePicture u2 = None"
    using conjunct2[OF t] req up by (simp del: One_nat_def)
  have put: "snd (put_profile sample_ext 10 (Some 1) with_picture ann_db) =
     \<lparr>users = [ann_row\<lparr>profilePicture := Some ''https://res.cloudinary.com/img.png'',
                isProfileComplete := False, updatedAt := 10\<rparr>], next_id = 2\<rparr>"
    by (simp add: put_profile_def with_picture_def age_rejected_def gender_rejected_def
        age_col_def gender_col_def uploadImage_def up ann_db_eq store_defs ann_row_def del: One_nat_def)
  have del: "snd (delete_profile_picture 11 (Some 1)
       (snd (put_profile sample_ext 10 (Some 1) with_picture ann_db))) =
     \<lparr>users = [ann_row\<lparr>isProfileComplete := False, updatedAt := 11\<rparr>], next_id = 2\<rparr>"
    by (simp add: put del: One_nat_def) (simp add: delete_profile_picture_def store_defs ann_row_def del: One_nat_def)
  show ?thesis
    by (intro conjI) (fact sample_find(1) row none with_picture_def up round put del)+
qed

section \<open>Federated login\<close>

text \<open>
  C5, as the code has it. The table's unique index on \<open>googleId\<close> refuses a new account
  whose external id another account already holds, and the callback looks accounts up by
  email only. So, for a verified identity (an email is reported, and a list of photos, if
  reported, is not empty) whose email matches no stored email, also not up to letter
  case: if its external id is bound to no account, the federated login creates exactly
  one account, with provider \<open>google\<close> and \<open>isProfileComplete\<close> false, and a second login
  with the same identity returns that account and adds none; if its external id is
  already bound to an account, the login ends in an error and the table is unchanged.
\<close>

theorem federated_login_new_email:
  assumes wf: "wf_db d"
    and em: "first_value (p_emails P) = Some (Some e)" "e \<noteq> []"
    and ph: "p_photos P \<noteq> Some []"
    and new: "\<not> registered_ci e d"
  shows "(\<not> googleId_taken (Some (p_id P)) d \<longrightarrow>
           (\<exists>u d1 u2 d2.
              google_verify t1 P d = (Inr u, d1) \<and> users d1 = users d @ [u] \<and>
              email u = e \<and> provider u = ''google'' \<and> googleId u = Some (p_id P) \<and>
              isProfileComplete u = False \<and>
              google_verify t2 P d1 = (Inr u2, d2) \<and> uid u2 = uid u \<and>
              length (users d2) = length (users d1))) \<and>
         (googleId_taken (Some (p_id P)) d \<longrightarrow>
            google_verify t1 P d = (Inl ''PrismaClientKnownRequestError'', d))"
proof -
  have absent: "findUnique_email e d = None"
    using new by (rule not_registered_no_exact)
  obtain photo where photo: "first_value (p_photos P) = Some photo"
    using ph by (cases "p_photos P"; cases "the (p_photos P)") auto
  have bound: "google_verify t1 P d = (Inl ''PrismaClientKnownRequestError'', d)"
    if "googleId_taken (Some (p_id P)) d"
    using that em absent photo by (simp add: google_verify_def prisma_create_def)
  have free: "\<exists>u d1 u2 d2.
              google_verify t1 P d = (Inr u, d1) \<and> users d1 = users d @ [u] \<and>
              email u = e \<and> provider u = ''google'' \<and> googleId u = Some (p_id P) \<and>
              isProfileComplete u = False \<and>
              google_verify t2 P d1 = (Inr u2, d2) \<and> uid u2 = uid u \<and>
              length (users d2) = length (users d1)"
    if gid: "\<not> googleId_taken (Some (p_id P)) d"
  proof -
    let ?u = "\<lparr>uid = next_id d, name = p_displayName P, email = e, password = None, age = None,
               gender = None, profilePicture = photo, provider = ''google'',
               googleId = Some (p_id P), isProfileComplete = False, createdAt = t1,
               updatedAt = t1\<rparr>"
    let ?d1 = "\<lparr>users = users d @ [?u], next_id = Suc (next_id d)\<rparr>"
    have first: "google_verify t1 P d = (Inr ?u, ?d1)"
      using em absent gid photo findUnique_email_None_not_taken[OF absent]
      by (simp add: google_verify_def prisma_create_def Let_def)
    have by_email: "findUnique_email e ?d1 = Some ?u"
      using absent by (simp add: findUnique_email_def find_append_new)
    have by_id: "findUnique_id (next_id d) ?d1 = Some ?u"
      using wf by (simp add: findUnique_id_def wf_db_def find_append_new find_fresh_id)
    obtain photo2 where photo2:
      "(if truthy_s photo then Some None else first_value (p_photos P)) = Some photo2"
      using photo by (cases "truthy_s photo") auto
    let ?f = "\<lambda>x. x\<lparr>googleId := Some (p_id P), provider := ''google'',
                     profilePicture := (if truthy_s photo2 then photo2 else profilePicture x),
                     name := (if name ?u \<noteq> p_displayName P then p_displayName P else name x),
                     isProfileComplete := (age ?u \<noteq> None \<and> gender ?u \<noteq> None)\<rparr>"
    obtain d2 where upd: "prisma_update t2 (next_id d) ?f ?d1 = Some ((?f ?u)\<lparr>updatedAt := t2\<rparr>, d2)"
      and len: "length (users d2) = length (users ?d1)"
      using prisma_update_same_googleId[OF by_id, of ?f t2] by auto
    have second: "google_verify t2 P ?d1 = (Inr ((?f ?u)\<lparr>updatedAt := t2\<rparr>), d2)"
      using em by_email photo2 upd by (simp add: google_verify_def)
    show ?thesis
      using first second len by simp
  qed
  show ?thesis using bound free by blast
qed

theorem federated_login_new_email_witness:
  "wf_db ann_db \<and> first_value (p_emails bob_profile) = Some (Some ''bob@x.org'') \<and>
   p_photos bob_profile \<noteq> Some [] \<and> \<not> registered_ci ''bob@x.org'' ann_db \<and>
   \<not> googleId_taken (Some (p_id bob_profile)) ann_db \<and>
   (\<exists>u d1 u2 d2.
      google_verify 6 bob_profile ann_db = (Inr u, d1) \<and> users d1 = users ann_db @ [u] \<and>
      email u = ''bob@x.org'' \<and> provider u = ''google'' \<and> googleId u = Some (p_id bob_profile) \<and>
      isProfileComplete u = False \<and>
      google_verify 7 bob_profile d1 = (Inr u2, d2) \<and> uid u2 = uid u \<and>
      length (users d2) = length (users d1)) \<and>
   snd (google_verify 6 bob_profile ann_db) =
     \<lparr>users = [ann_row, bob_row\<lparr>uid := 2\<rparr>], next_id = 3\<rparr> \<and>
   snd (google_verify 7 bob_profile (snd (google_verify 6 bob_profile ann_db))) =
     \<lparr>users = [ann_row, bob_row\<lparr>uid := 2, updatedAt := 7\<rparr>], next_id = 3\<rparr> \<and>
   wf_db upper_db \<and> first_value (p_emails renamed_profile) = Some (Some ''ann@new.org'') \<and>
   p_photos renamed_profile \<noteq> Some [] \<and> \<not> registered_ci ''ann@new.org'' upper_db \<and>
   googleId_taken (Some (p_id renamed_profile)) upper_db \<and>
   google_verify 7 renamed_profile upper_db = (Inl ''PrismaClientKnownRequestError'', upper_db)"
proof -
  have h: "first_value (p_emails bob_profile) = Some (Some ''bob@x.org'')"
    "''bob@x.org'' \<noteq> []" "p_photos bob_profile \<noteq> Some []"
    "\<not> registered_ci ''bob@x.org'' ann_db"
    by (simp_all add: bob_profile_def registered_ci_def ann_db_eq ann_row_def sample_lower
        del: One_nat_def)
  have free: "\<not> googleId_taken (Some (p_id bob_profile)) ann_db"
    by (simp add: bob_profile_def googleId_taken_def ann_db_eq ann_row_def del: One_nat_def)
  note t = federated_login_new_email[OF sample_wf(1) h, of 6 7]
  have ex: "\<exists>u d1 u2 d2.
      google_verify 6 bob_profile ann_db = (Inr u, d1) \<and> users d1 = users ann_db @ [u] \<and>
      email u = ''bob@x.org'' \<and> provider u = ''google'' \<and> googleId u = Some (p_id bob_profile) \<and>
      isProfileComplete u = False \<and>
      google_verify 7 bob_profile d1 = (Inr u2, d2) \<and> uid u2 = uid u \<and>
      length (users d2) = length (users d1)"
    using conjunct1[OF t] free by blast
  have ev1: "snd (google_verify 6 bob_profile ann_db) =
      \<lparr>users = [ann_row, bob_row\<lparr>uid := 2\<rparr>], next_id = 3\<rparr>"
    by (simp add: google_verify_def bob_profile_def ann_db_eq store_defs ann_row_def bob_row_def
        del: One_nat_def)
  have ev2: "snd (google_verify 7 bob_profile (snd (google_verify 6 bob_profile ann_db))) =
      \<lparr>users = [ann_row, bob_row\<lparr>uid := 2, updatedAt := 7\<rparr>], next_id = 3\<rparr>"
    by (simp add: ev1 del: One_nat_def)
      (simp add: google_verify_def bob_profile_def store_defs ann_row_def bob_row_def
        del: One_nat_def)
  have wfu: "wf_db upper_db"
    by (simp add: wf_db_def upper_db_eq upper_row_def del: One_nat_def)
  have hu: "first_value (p_emails renamed_profile) = Some (Some ''ann@new.org'')"
    "''ann@new.org'' \<noteq> []" "p_photos renamed_profile \<noteq> Some []"
    "\<not> registered_ci ''ann@new.org'' upper_db"
    by (simp_all add: renamed_profile_def registered_ci_def upper_db_eq upper_row_def
        toLowerCase_def lower_char_def del: One_nat_def)
  have taken: "googleId_taken (Some (p_id renamed_profile)) upper_db"
    by (simp add: renamed_profile_def googleId_taken_def upper_db_eq upper_row_def
        del: One_nat_def)
  note tu = federated_login_new_email[OF wfu hu, of 7 7]
  have err: "google_verify 7 renamed_profile upper_db =
      (Inl ''PrismaClientKnownRequestError'', upper_db)"
    using conjunct2[OF tu] taken by blast
  show ?thesis
    by (intro conjI) (fact sample_wf(1) h free ex ev1 ev2 wfu hu taken err)+
qed

text \<open>
  C5 as stated fails where the external id is already bound: after a first federated
  login as \<open>A@b.com\<close> with external id \<open>g1\<close>, a login of the same external id under the
  new email \<open>ann@new.org\<close> matches no stored email, and yet no account is created: the
  callback ends in an error and the table is unchanged.
\<close>

theorem federated_login_bound_external_id_counterexample:
  "upper_db = \<lparr>users = [upper_row], next_id = 2\<rparr> \<and>
   googleId upper_row = Some (p_id renamed_profile) \<and>
   first_value (p_emails renamed_profile) = Some (Some ''ann@new.org'') \<and>
   findUnique_email ''ann@new.org'' upper_db = None \<and>
   google_verify 7 renamed_profile upper_db = (Inl ''PrismaClientKnownRequestError'', upper_db) \<and>
   length (users (snd (google_verify 7 renamed_profile upper_db))) = length (users upper_db)"
proof -
  have row: "googleId upper_row = Some (p_id renamed_profile)"
    "first_value (p_emails renamed_profile) = Some (Some ''ann@new.org'')"
    by (simp_all add: upper_row_def renamed_profile_def del: One_nat_def)
  have ev: "google_verify 7 renamed_profile upper_db = (Inl ''PrismaClientKnownRequestError'', upper_db)"
    by (simp add: google_verify_def renamed_profile_def upper_db_eq store_defs upper_row_def del: One_nat_def)
  have len: "length (users (snd (google_verify 7 renamed_profile upper_db))) = length (users upper_db)"
    by (simp add: ev del: One_nat_def)
  show ?thesis
    by (intro conjI) (fact upper_db_eq row sample_find(10) ev len)+
qed

section \<open>Further properties of the handlers\<close>

lemma lower_char_idem: "lower_char (lower_char c) = lower_char c"
  by (simp add: lower_char_def split: option.splits if_splits)

lemma toLowerCase_idem: "toLowerCase (toLowerCase s) = toLowerCase s"
  by (simp add: toLowerCase_def lower_char_idem)

lemma age_col_set: "\<not> age_rejected X a \<Longrightarrow> (age_col X a \<noteq> None) = truthy a"
  by (cases "Number_js X a") (auto simp: age_rejected_def age_col_def)

lemma gender_col_set: "(gender_col g \<noteq> None) = truthy_s g"
  by (simp add: gender_col_def)

lemma prisma_create_Some:
  "prisma_create now data d = Some (u, d') \<Longrightarrow>
   u = data\<lparr>uid := next_id d, createdAt := now, updatedAt := now\<rparr> \<and>
   users d' = users d @ [u] \<and> next_id d' = Suc (next_id d) \<and> \<not> email_taken (email data) d"
  by (auto simp: prisma_create_def Let_def split: if_splits)

lemma status_of_error_json: "status_of (error_json st msg) = st"
  by (simp add: error_json_def)

text \<open>
  A signup answered 201 passed every check and its insert succeeded; any other answer
  leaves the table as it was.
\<close>

lemma signup_created:
  assumes "status_of (fst (signup X now r d)) = 201"
  shows "\<not> age_rejected X (s_age r) \<and>
         (\<exists>u pic. prisma_create now
            \<lparr>uid = 0, name = str_of (s_name r), email = toLowerCase (str_of (s_email r)),
             password = Some (bcrypt_hash X (str_of (s_password r))),
             age = age_col X (s_age r), gender = gender_col (s_gender r),
             profilePicture = pic, provider = ''credentials'', googleId = None,
             isProfileComplete = (truthy (s_age r) \<and> truthy_s (s_gender r)),
             createdAt = 0, updatedAt = 0\<rparr> d = Some (u, snd (signup X now r d)))"
  using assms unfolding signup_def
  by (auto simp: status_of_error_json split: if_splits option.splits)

lemma signup_not_created:
  assumes "status_of (fst (signup X now r d)) \<noteq> 201"
  shows "snd (signup X now r d) = d"
  using assms unfolding signup_def
  by (auto simp: status_of_error_json split: if_splits option.splits)

lemma signup_created_row:
  assumes "status_of (fst (signup X now r d)) = 201"
  shows "\<exists>u. users (snd (signup X now r d)) = users d @ [u] \<and> uid u = next_id d \<and>
             profile_flag_ok u \<and>
             isProfileComplete u = (truthy (s_age r) \<and> truthy_s (s_gender r)) \<and>
             email u = toLowerCase (str_of (s_email r)) \<and> provider u = ''credentials'' \<and>
             password u = Some (bcrypt_hash X (str_of (s_password r)))"
proof -
  from signup_created[OF assms]
  obtain u pic where ok: "\<not> age_rejected X (s_age r)"
    "prisma_create now
        \<lparr>uid = 0, name = str_of (s_name r), email = toLowerCase (str_of (s_email r)),
         password = Some (bcrypt_hash X (str_of (s_password r))),
         age = age_col X (s_age r), gender = gender_col (s_gender r),
         profilePicture = pic, provider = ''credentials'', googleId = None,
         isProfileComplete = (truthy (s_age r) \<and> truthy_s (s_gender r)),
         createdAt = 0, updatedAt = 0\<rparr> d = Some (u, snd (signup X now r d))"
    by auto
  show ?thesis
    using prisma_create_Some[OF ok(2)] age_col_set[OF ok(1)] gender_col_set[of "s_gender r"]
    by (simp add: profile_flag_ok_def)
qed

text \<open>
  X1. Every signup that is answered 201 has added exactly one account: its email is the
  lower-cased request email, its provider is \<open>credentials\<close>, it holds the hash of the
  secret, and its \<open>isProfileComplete\<close> equals "age is set and gender is set".
\<close>

theorem signup_creates_consistent_account:
  assumes "status_of (fst (signup X now r d)) = 201"
  shows "\<exists>u. users (snd (signup X now r d)) = users d @ [u] \<and> uid u = next_id d \<and>
             profile_flag_ok u \<and>
             isProfileComplete u = (truthy (s_age r) \<and> truthy_s (s_gender r)) \<and>
             email u = toLowerCase (str_of (s_email r)) \<and> provider u = ''credentials'' \<and>
             password u = Some (bcrypt_hash X (str_of (s_password r)))"
  using assms by (rule signup_created_row)

theorem signup_creates_consistent_account_witness:
  "status_of (fst (signup sample_ext 5 sample_signup empty_db)) = 201 \<and>
   (\<exists>u. users (snd (signup sample_ext 5 sample_signup empty_db)) = users empty_db @ [u] \<and>
        uid u = next_id empty_db \<and> profile_flag_ok u \<and>
        isProfileComplete u = (truthy (s_age sample_signup) \<and> truthy_s (s_gender sample_signup)) \<and>
        email u = toLowerCase (str_of (s_email sample_signup)) \<and> provider u = ''credentials'' \<and>
        password u = Some (bcrypt_hash sample_ext (str_of (s_password sample_signup)))) \<and>
   snd (signup sample_ext 5 sample_signup empty_db) = \<lparr>users = [ann_row], next_id = 2\<rparr>"
proof -
  have s201: "status_of (fst (signup sample_ext 5 sample_signup empty_db)) = 201"
    by (simp add: signup_def sample_signup_def sample_valid_email sample_valid_gender
        sample_lower age_rejected_def gender_rejected_def age_col_def gender_col_def
        store_defs empty_db_def sample_ext_def del: One_nat_def)
  note t = signup_creates_consistent_account[OF s201]
  show ?thesis
    by (intro conjI) (fact s201 t ann_db_eq[unfolded ann_db_def])+
qed

text \<open>
  X2. A signup that passes the input checks and whose lower-cased email is stored is
  refused with "User with this email already exists" (\<open>DuplicateEmail\<close>); and whatever
  the request, a signup that is not answered 201 leaves the table as it was.
\<close>

theorem signup_duplicate_email_rejected:
  "(truthy_s (s_name r) \<and> truthy_s (s_email r) \<and> truthy_s (s_password r) \<and>
    isValidEmail (str_of (s_email r)) \<and> 6 \<le> length (str_of (s_password r)) \<and>
    \<not> age_rejected X (s_age r) \<and> \<not> gender_rejected (s_gender r) \<and>
    findUnique_email (toLowerCase (str_of (s_email r))) d = Some u0 \<longrightarrow>
      signup X now r d = (error_json 400 ''User with this email already exists'', d) \<and>
      error_kind (fst (signup X now r d)) = Some DuplicateEmail) \<and>
   (status_of (fst (signup X now r d)) \<noteq> 201 \<longrightarrow> snd (signup X now r d) = d)"
proof -
  have dup: "error_kind (error_json 400 ''User with this email already exists'') = Some DuplicateEmail"
    by (simp add: error_kind_def error_json_def)
  have "status_of (fst (signup X now r d)) \<noteq> 201 \<longrightarrow> snd (signup X now r d) = d"
    using signup_not_created[of X now r d] by auto
  then show ?thesis
    by (auto simp: signup_def dup)
qed

theorem signup_duplicate_email_rejected_witness:
  "findUnique_email (toLowerCase ''A@B.com'') ann_db = Some ann_row \<and>
   signup sample_ext 7 (sample_signup\<lparr>s_email := Some ''A@B.com''\<rparr>) ann_db =
     (error_json 400 ''User with this email already exists'', ann_db) \<and>
   error_kind (fst (signup sample_ext 7 (sample_signup\<lparr>s_email := Some ''A@B.com''\<rparr>) ann_db))
     = Some DuplicateEmail \<and>
   snd (signup sample_ext 7 (sample_signup\<lparr>s_email := Some ''A@B.com''\<rparr>) ann_db) = ann_db"
proof -
  let ?r = "sample_signup\<lparr>s_email := Some ''A@B.com''\<rparr>"
  have f: "findUnique_email (toLowerCase ''A@B.com'') ann_db = Some ann_row"
    by (simp add: sample_lower sample_find del: One_nat_def)
  have h: "truthy_s (s_name ?r)" "truthy_s (s_email ?r)" "truthy_s (s_password ?r)"
    "isValidEmail (str_of (s_email ?r))" "6 \<le> length (str_of (s_password ?r))"
    "\<not> age_rejected sample_ext (s_age ?r)" "\<not> gender_rejected (s_gender ?r)"
    "findUnique_email (toLowerCase (str_of (s_email ?r))) ann_db = Some ann_row"
    using f
    by (simp_all add: sample_signup_def sample_valid_email sample_valid_gender age_rejected_def
        gender_rejected_def del: One_nat_def)
  note t = signup_duplicate_email_rejected[of ?r sample_ext ann_db ann_row 7]
  have c: "signup sample_ext 7 ?r ann_db =
      (error_json 400 ''User with this email already exists'', ann_db)"
    "error_kind (fst (signup sample_ext 7 ?r ann_db)) = Some DuplicateEmail"
    using conjunct1[OF t] h by blast+
  have s: "snd (signup sample_ext 7 ?r ann_db) = ann_db"
    by (simp add: c(1))
  show ?thesis
    by (intro conjI) (fact f c s)+
qed

lemma prisma_update_Some:
  "prisma_update now i f d = Some (u', d') \<Longrightarrow>
   \<exists>u. findUnique_id i d = Some u \<and> u \<in> set (users d) \<and> uid u = i \<and>
       u' = (f u)\<lparr>updatedAt := now\<rparr> \<and>
       users d' = map (\<lambda>x. if uid x = i then u' else x) (users d) \<and> next_id d' = next_id d"
  by (auto simp: prisma_update_def Let_def findUnique_id_def find_Some_iff
      split: option.splits if_splits)

lemma same_id_same_row:
  "wf_db d \<Longrightarrow> u \<in> set (users d) \<Longrightarrow> u' \<in> set (users d) \<Longrightarrow> uid u = uid u' \<Longrightarrow> u = u'"
  by (auto simp: wf_db_def distinct_map dest: inj_onD)

lemma findUnique_email_mem: "findUnique_email e d = Some u \<Longrightarrow> u \<in> set (users d)"
  by (auto simp: findUnique_email_def find_Some_iff)

lemma prisma_update_flags:
  assumes "flags_ok d" "prisma_update now i f d = Some (u', d')"
    and "\<And>u. u \<in> set (users d) \<Longrightarrow> uid u = i \<Longrightarrow> profile_flag_ok (f u)"
  shows "flags_ok d'"
proof -
  obtain u where u: "u \<in> set (users d)" "uid u = i" "u' = (f u)\<lparr>updatedAt := now\<rparr>"
    "users d' = map (\<lambda>x. if uid x = i then u' else x) (users d)"
    using prisma_update_Some[OF assms(2)] by auto
  have "profile_flag_ok u'"
    using assms(3)[OF u(1,2)] u(3) by (simp add: profile_flag_ok_def)
  then show ?thesis
    using assms(1) u(4) by (auto simp: flags_ok_def list_all_iff)
qed

lemma prisma_create_flags:
  assumes "flags_ok d" "prisma_create now data d = Some (u, d')" "profile_flag_ok data"
  shows "flags_ok d'"
  using assms prisma_create_Some[OF assms(2)]
  by (auto simp: flags_ok_def list_all_iff profile_flag_ok_def)

lemma signup_flags: "flags_ok d \<Longrightarrow> flags_ok (snd (signup X now r d))"
proof (cases "status_of (fst (signup X now r d)) = 201")
  case True
  assume ok: "flags_ok d"
  obtain u where "users (snd (signup X now r d)) = users d @ [u]" "profile_flag_ok u"
    using signup_created_row[OF True] by auto
  then show ?thesis using ok by (simp add: flags_ok_def)
next
  case False
  assume "flags_ok d"
  then show ?thesis using signup_not_created[OF False] by simp
qed

text \<open>
  What the verify callback does to the table: nothing, one insert of an account without
  age and gender, or one update of the account found by email that leaves id, age and
  gender alone and recomputes the flag from them.
\<close>

lemma google_verify_result:
  "snd (google_verify now P d) = d \<or>
   (\<exists>data u. prisma_create now data d = Some (u, snd (google_verify now P d)) \<and>
      age data = None \<and> gender data = None \<and> isProfileComplete data = False) \<or>
   (\<exists>e u f u'. findUnique_email e d = Some u \<and>
      prisma_update now (uid u) f d = Some (u', snd (google_verify now P d)) \<and>
      (\<forall>x. uid (f x) = uid x \<and> age (f x) = age x \<and> gender (f x) = gender x \<and>
           isProfileComplete (f x) = (age u \<noteq> None \<and> gender u \<noteq> None)))"
proof (cases "first_value (p_emails P)")
  case None
  then show ?thesis by (simp add: google_verify_def)
next
  case (Some em)
  show ?thesis
  proof (cases "truthy_s em")
    case False
    then show ?thesis using Some by (simp add: google_verify_def)
  next
    case True
    show ?thesis
    proof (cases "findUnique_email (str_of em) d")
      case None
      then show ?thesis
        using Some True
        by (simp add: google_verify_def split: option.splits) force
    next
      case (Some u)
      let ?photo = "if truthy_s (profilePicture u) then Some None else first_value (p_photos P)"
      show ?thesis
      proof (cases ?photo)
        case None
        then show ?thesis
          using \<open>first_value (p_emails P) = Some em\<close> True Some by (simp add: google_verify_def)
      next
        case (Some photo)
        let ?f = "\<lambda>x. x\<lparr>googleId := Some (p_id P), provider := ''google'',
                     profilePicture := (if truthy_s photo then photo else profilePicture x),
                     name := (if name u \<noteq> p_displayName P then p_displayName P else name x),
                     isProfileComplete := (age u \<noteq> None \<and> gender u \<noteq> None)\<rparr>"
        have gv: "google_verify now P d =
            (case prisma_update now (uid u) ?f d of
               None \<Rightarrow> (Inl ''PrismaClientKnownRequestError'', d)
             | Some (u', d') \<Rightarrow> (Inr u', d'))"
          using \<open>first_value (p_emails P) = Some em\<close> True
            \<open>findUnique_email (str_of em) d = Some u\<close> Some
          by (simp add: google_verify_def)
        show ?thesis
        proof (cases "prisma_update now (uid u) ?f d")
          case None
          then show ?thesis by (simp add: gv)
        next
          case (Some res)
          obtain u' d' where res: "res = (u', d')" by (cases res)
          have "findUnique_email (str_of em) d = Some u \<and>
                prisma_update now (uid u) ?f d = Some (u', snd (google_verify now P d)) \<and>
                (\<forall>x. uid (?f x) = uid x \<and> age (?f x) = age x \<and> gender (?f x) = gender x \<and>
                     isProfileComplete (?f x) = (age u \<noteq> None \<and> gender u \<noteq> None))"
            using Some res \<open>findUnique_email (str_of em) d = Some u\<close> by (simp add: gv)
          then show ?thesis by blast
        qed
      qed
    qed
  qed
qed

lemma google_verify_flags:
  assumes "wf_db d" "flags_ok d"
  shows "flags_ok (snd (google_verify now P d))"
proof -
  consider "snd (google_verify now P d) = d"
    | data u where "prisma_create now data d = Some (u, snd (google_verify now P d))"
        "age data = None" "gender data = None" "isProfileComplete data = False"
    | e u f u' where "findUnique_email e d = Some u"
        "prisma_update now (uid u) f d = Some (u', snd (google_verify now P d))"
        "\<forall>x. uid (f x) = uid x \<and> age (f x) = age x \<and> gender (f x) = gender x \<and>
             isProfileComplete (f x) = (age u \<noteq> None \<and> gender u \<noteq> None)"
    using google_verify_result[of now P d] by blast
  then show ?thesis
  proof cases
    case 1
    then show ?thesis using assms(2) by simp
  next
    case 2
    then show ?thesis
      using prisma_create_flags[OF assms(2) 2(1)] by (simp add: profile_flag_ok_def)
  next
    case 3
    show ?thesis
    proof (rule prisma_update_flags[OF assms(2) 3(2)])
      fix x assume "x \<in> set (users d)" "uid x = uid u"
      then have "x = u"
        using same_id_same_row[OF assms(1) _ findUnique_email_mem[OF 3(1)]] by simp
      then show "profile_flag_ok (f x)"
        using 3(3) by (simp add: profile_flag_ok_def)
    qed
  qed
qed

lemma complete_profile_flags:
  assumes "flags_ok d"
  shows "flags_ok (snd (complete_profile X now r d))"
proof -
  have upd: "flags_ok d'"
    if "isValidAge (Number_js X (c_age r))" "truthy (c_age r)"
      "prisma_update now i
         (\<lambda>u. u\<lparr>age := age_col X (c_age r), gender := Some g, isProfileComplete := True,
                 password := pw u\<rparr>) d = Some (u', d')"
    for i g pw u' d'
  proof (rule prisma_update_flags[OF assms that(3)])
    fix u
    have "age_col X (c_age r) \<noteq> None"
      using that(1,2) by (cases "Number_js X (c_age r)") (auto simp: age_col_def)
    then show "profile_flag_ok (u\<lparr>age := age_col X (c_age r), gender := Some g,
        isProfileComplete := True, password := pw u\<rparr>)"
      by (simp add: profile_flag_ok_def)
  qed
  show ?thesis
    unfolding complete_profile_def
    using assms by (auto split: option.splits elim: upd)
qed

lemma change_password_flags:
  assumes "flags_ok d"
  shows "flags_ok (snd (change_password X now auth r d))"
proof -
  have upd: "flags_ok d'"
    if "prisma_update now i (\<lambda>u. u\<lparr>password := pw\<rparr>) d = Some (u', d')" for i pw u' d'
  proof (rule prisma_update_flags[OF assms that])
    fix u assume "u \<in> set (users d)"
    then show "profile_flag_ok (u\<lparr>password := pw\<rparr>)"
      using assms by (simp add: flags_ok_def list_all_iff profile_flag_ok_def)
  qed
  show ?thesis
    unfolding change_password_def
    using assms by (auto split: option.splits elim: upd)
qed

lemma delete_profile_picture_flags:
  assumes "flags_ok d"
  shows "flags_ok (snd (delete_profile_picture now auth d))"
proof -
  have upd: "flags_ok d'"
    if "prisma_update now i (\<lambda>u. u\<lparr>profilePicture := None\<rparr>) d = Some (u', d')" for i u' d'
  proof (rule prisma_update_flags[OF assms that])
    fix u assume "u \<in> set (users d)"
    then show "profile_flag_ok (u\<lparr>profilePicture := None\<rparr>)"
      using assms by (simp add: flags_ok_def list_all_iff profile_flag_ok_def)
  qed
  show ?thesis
    unfolding delete_profile_picture_def
    using assms by (auto split: option.splits elim: upd)
qed

text \<open>
  X3. Signup, federated login, profile completion, the secret change and the picture
  delete keep the flag right on every account: if every stored account's
  \<open>isProfileComplete\<close> equals "age is set and gender is set" before the operation, the
  same holds after it. (\<open>PUT /profile\<close> is the one handler that does not, see C1.)
\<close>

theorem handlers_keep_profile_flag:
  assumes "wf_db d" "flags_ok d"
  shows "flags_ok (snd (signup X now s d)) \<and> flags_ok (snd (google_verify now P d)) \<and>
         flags_ok (snd (complete_profile X now c d)) \<and>
         flags_ok (snd (change_password X now auth p d)) \<and>
         flags_ok (snd (delete_profile_picture now auth d))"
  using assms
  by (simp add: signup_flags google_verify_flags complete_profile_flags change_password_flags
      delete_profile_picture_flags)

theorem handlers_keep_profile_flag_witness:
  "wf_db ann_db \<and> flags_ok ann_db \<and>
   flags_ok (snd (signup sample_ext 6 sample_signup ann_db)) \<and>
   flags_ok (snd (google_verify 6 bob_profile ann_db)) \<and>
   snd (google_verify 6 bob_profile ann_db) =
     \<lparr>users = [ann_row, bob_row\<lparr>uid := 2\<rparr>], next_id = 3\<rparr> \<and>
   flags_ok (snd (delete_profile_picture 6 (Some 1) ann_db))"
proof -
  note t = handlers_keep_profile_flag
      [OF sample_wf(1,2), of sample_ext 6 sample_signup bob_profile _ "Some 1"]
  have ev: "snd (google_verify 6 bob_profile ann_db) =
      \<lparr>users = [ann_row, bob_row\<lparr>uid := 2\<rparr>], next_id = 3\<rparr>"
    by (simp add: google_verify_def bob_profile_def ann_db_eq store_defs ann_row_def bob_row_def del: One_nat_def)
  have c: "flags_ok (snd (signup sample_ext 6 sample_signup ann_db))"
    "flags_ok (snd (google_verify 6 bob_profile ann_db))"
    "flags_ok (snd (delete_profile_picture 6 (Some 1) ann_db))"
    using t by blast+
  show ?thesis
    by (intro conjI) (fact sample_wf(1,2) c ev)+
qed

text \<open>
  X4. While every stored email is in lower case, signup keeps the emails distinct up to
  letter case and in lower case: signup's own check is right, and the loss of
  uniqueness in C2 and C3 comes from the Google verify callback alone.
\<close>

theorem signup_keeps_emails_distinct:
  assumes "emails_lower d" "emails_distinct_ci d"
  shows "emails_lower (snd (signup X now r d)) \<and> emails_distinct_ci (snd (signup X now r d))"
proof (cases "status_of (fst (signup X now r d)) = 201")
  case True
  from signup_created[OF True]
  obtain u pic where cr: "prisma_create now
        \<lparr>uid = 0, name = str_of (s_name r), email = toLowerCase (str_of (s_email r)),
         password = Some (bcrypt_hash X (str_of (s_password r))),
         age = age_col X (s_age r), gender = gender_col (s_gender r),
         profilePicture = pic, provider = ''credentials'', googleId = None,
         isProfileComplete = (truthy (s_age r) \<and> truthy_s (s_gender r)),
         createdAt = 0, updatedAt = 0\<rparr> d = Some (u, snd (signup X now r d))"
    by auto
  have u: "users (snd (signup X now r d)) = users d @ [u]"
    "email u = toLowerCase (str_of (s_email r))"
    "\<not> email_taken (toLowerCase (str_of (s_email r))) d"
    using prisma_create_Some[OF cr] by simp_all
  have same: "map (\<lambda>u. toLowerCase (email u)) (users d) = map email (users d)"
    using assms(1) by (simp add: emails_lower_def list_all_iff)
  have "toLowerCase (email u) \<notin> set (map email (users d))"
    using u(2,3) by (auto simp: email_taken_def list_ex_iff toLowerCase_idem)
  moreover have "distinct (map email (users d))"
    using assms(2) by (simp add: emails_distinct_ci_def same)
  ultimately have "emails_distinct_ci (snd (signup X now r d))"
    by (simp add: emails_distinct_ci_def u(1) same)
  moreover have "emails_lower (snd (signup X now r d))"
    using assms(1) by (simp add: emails_lower_def u(1,2) toLowerCase_idem)
  ultimately show ?thesis by simp
next
  case False
  then show ?thesis using assms signup_not_created[OF False] by simp
qed

theorem signup_keeps_emails_distinct_witness:
  "emails_lower ann_db \<and> emails_distinct_ci ann_db \<and>
   emails_lower (snd (signup sample_ext 7 (sample_signup\<lparr>s_email := Some ''C@D.org''\<rparr>) ann_db)) \<and>
   emails_distinct_ci (snd (signup sample_ext 7 (sample_signup\<lparr>s_email := Some ''C@D.org''\<rparr>) ann_db)) \<and>
   map email (users (snd (signup sample_ext 7 (sample_signup\<lparr>s_email := Some ''C@D.org''\<rparr>) ann_db)))
     = [''a@b.com'', ''c@d.org'']"
proof -
  let ?r = "sample_signup\<lparr>s_email := Some ''C@D.org''\<rparr>"
  note t = signup_keeps_emails_distinct[OF sample_wf(3,4), of sample_ext 7 ?r]
  have ev: "map email (users (snd (signup sample_ext 7 ?r ann_db))) = [''a@b.com'', ''c@d.org'']"
    by (simp add: signup_def sample_signup_def sample_valid_email sample_valid_gender
        sample_lower age_rejected_def gender_rejected_def age_col_def gender_col_def
        ann_db_eq ann_row_def store_defs sample_ext_def del: One_nat_def)
  show ?thesis
    by (intro conjI) (fact sample_wf(3,4) conjunct1[OF t] conjunct2[OF t] ev)+
qed

text \<open>
  X5. A login that passes the input checks, finds the account under the lower-cased
  email and matches its hash is answered 200 with a token signed for that account's id.
\<close>

theorem login_success_token:
  assumes "truthy_s (l_email r)" "truthy_s (l_password r)" "isValidEmail (str_of (l_email r))"
    and "findUnique_email (toLowerCase (str_of (l_email r))) d = Some u"
    and "truthy_s (password u)"
    and "bcrypt_compare X (str_of (l_password r)) (str_of (password u))"
  shows "status_of (login X r d) = 200 \<and>
         json_get ''token'' (body_of (login X r d)) = Some (JStr (jwt_sign X (uid u))) \<and>
         response_user_field ''id'' (login X r d) = Some (JInt (int (uid u)))"
  using assms by (simp add: login_def response_user_field_def user_fields_def)

theorem login_success_token_witness:
  "findUnique_email (toLowerCase ''A@B.COM'') ann_db = Some ann_row \<and>
   bcrypt_compare sample_ext ''abcdef'' ''$2a$12$abcdef'' \<and>
   status_of (login sample_ext \<lparr>l_email = Some ''A@B.COM'', l_password = Some ''abcdef''\<rparr> ann_db) = 200 \<and>
   json_get ''token'' (body_of (login sample_ext
       \<lparr>l_email = Some ''A@B.COM'', l_password = Some ''abcdef''\<rparr> ann_db))
     = Some (JStr (jwt_sign sample_ext (uid ann_row))) \<and>
   jwt_verify sample_ext (jwt_sign sample_ext (uid ann_row)) = Some 1"
proof -
  let ?r = "\<lparr>l_email = Some ''A@B.COM'', l_password = Some ''abcdef''\<rparr>"
  have f: "findUnique_email (toLowerCase ''A@B.COM'') ann_db = Some ann_row"
    by (simp add: sample_lower sample_find del: One_nat_def)
  have cmp: "bcrypt_compare sample_ext ''abcdef'' ''$2a$12$abcdef''"
    "jwt_verify sample_ext (jwt_sign sample_ext (uid ann_row)) = Some 1"
    by (simp_all add: sample_ext_def ann_row_def list_all_iff del: One_nat_def)
  have h: "truthy_s (l_email ?r)" "truthy_s (l_password ?r)" "isValidEmail (str_of (l_email ?r))"
    "findUnique_email (toLowerCase (str_of (l_email ?r))) ann_db = Some ann_row"
    "truthy_s (password ann_row)"
    "bcrypt_compare sample_ext (str_of (l_password ?r)) (str_of (password ann_row))"
    using f by (simp_all add: sample_valid_email ann_row_def sample_ext_def del: One_nat_def)
  note t = login_success_token[OF h]
  show ?thesis
    by (intro conjI) (fact f cmp conjunct1[OF t] conjunct1[OF conjunct2[OF t]])+
qed

text \<open>
  X6. A \<open>complete-profile\<close> request with a token that verifies for a stored account, a
  valid age and a valid gender (and, for a \<open>google\<close> account, no secret or one of at
  least six characters) is answered 200; afterwards the account has the age, the
  lower-cased gender and \<open>isProfileComplete\<close> true, and a \<open>google\<close> account that sent a
  secret holds its hash.
\<close>

theorem complete_profile_success:
  assumes "truthy_s (bearer_token (c_authorization r))"
    and "jwt_verify X (str_of (bearer_token (c_authorization r))) = Some i"
    and "truthy (c_age r)" "Number_js X (c_age r) = Num n" "13 \<le> n" "n \<le> 120"
    and "truthy_s (c_gender r)" "isValidGender (str_of (c_gender r))"
    and "findUnique_id i d = Some u"
    and "provider u = ''google'' \<and> truthy_s (c_password r) \<longrightarrow> 6 \<le> length (str_of (c_password r))"
  shows "\<exists>u'. status_of (fst (complete_profile X now r d)) = 200 \<and>
              findUnique_id i (snd (complete_profile X now r d)) = Some u' \<and>
              age u' = Some n \<and> gender u' = Some (toLowerCase (str_of (c_gender r))) \<and>
              isProfileComplete u' \<and> profile_flag_ok u' \<and>
              password u' =
                (if provider u = ''google'' \<and> truthy_s (c_password r)
                 then Some (bcrypt_hash X (str_of (c_password r))) else password u)"
proof -
  let ?f = "\<lambda>x. x\<lparr>age := age_col X (c_age r),
                  gender := Some (toLowerCase (str_of (c_gender r))),
                  isProfileComplete := True,
                  password := (if provider u = ''google'' \<and> truthy_s (c_password r)
                               then Some (bcrypt_hash X (str_of (c_password r)))
                               else password x)\<rparr>"
  let ?u' = "(?f u)\<lparr>updatedAt := now\<rparr>"
  obtain d' where upd: "prisma_update now i ?f d = Some (?u', d')"
    and fnd: "findUnique_id i d' = Some ?u'"
    using prisma_update_same_googleId[OF assms(9), of ?f now] by auto
  have res: "snd (complete_profile X now r d) = d'"
    "status_of (fst (complete_profile X now r d)) = 200"
    using assms upd by (auto simp: complete_profile_def)
  have "age_col X (c_age r) = Some n"
    using assms(3,4) by (simp add: age_col_def)
  then show ?thesis
    using fnd by (simp add: res profile_flag_ok_def)
qed

theorem complete_profile_success_witness:
  "bearer_token (Some ''Bearer t'') = Some ''t'' \<and> jwt_verify sample_ext ''t'' = Some 1 \<and>
   findUnique_id 1 bob_db = Some bob_row \<and> Number_js sample_ext (JString ''30'') = Num 30 \<and>
   status_of (fst (complete_profile sample_ext 8
     \<lparr>c_authorization = Some ''Bearer t'', c_age = JString ''30'', c_gender = Some ''Female'',
      c_password = Some ''hunter22''\<rparr> bob_db)) = 200 \<and>
   snd (complete_profile sample_ext 8
     \<lparr>c_authorization = Some ''Bearer t'', c_age = JString ''30'', c_gender = Some ''Female'',
      c_password = Some ''hunter22''\<rparr> bob_db) =
     \<lparr>users = [bob_row\<lparr>age := Some 30, gender := Some ''female'', isProfileComplete := True,
                password := Some ''$2a$12$hunter22'', updatedAt := 8\<rparr>], next_id = 2\<rparr>"
proof -
  let ?r = "\<lparr>c_authorization = Some ''Bearer t'', c_age = JString ''30'', c_gender = Some ''Female'',
             c_password = Some ''hunter22''\<rparr>"
  have tok: "bearer_token (Some ''Bearer t'') = Some ''t''" "jwt_verify sample_ext ''t'' = Some 1"
    by (simp_all add: bearer_token_def sample_ext_def del: One_nat_def)
  have num: "Number_js sample_ext (JString ''30'') = Num 30"
    by (simp add: sample_ext_def sample_Number_def is_digit_def del: One_nat_def)
  have h: "truthy_s (bearer_token (c_authorization ?r))"
    "jwt_verify sample_ext (str_of (bearer_token (c_authorization ?r))) = Some 1"
    "truthy (c_age ?r)" "Number_js sample_ext (c_age ?r) = Num 30" "(13::int) \<le> 30" "(30::int) \<le> 120"
    "truthy_s (c_gender ?r)" "isValidGender (str_of (c_gender ?r))"
    using tok num by (simp_all add: sample_valid_gender del: One_nat_def)
  have pw: "provider bob_row = ''google'' \<and> truthy_s (c_password ?r) \<longrightarrow>
      6 \<le> length (str_of (c_password ?r))"
    by (simp del: One_nat_def)
  note t = complete_profile_success[OF h sample_find(2) pw, of 8]
  have st: "status_of (fst (complete_profile sample_ext 8 ?r bob_db)) = 200"
    using t by blast
  have ev: "snd (complete_profile sample_ext 8 ?r bob_db) =
     \<lparr>users = [bob_row\<lparr>age := Some 30, gender := Some ''female'', isProfileComplete := True,
                password := Some ''$2a$12$hunter22'', updatedAt := 8\<rparr>], next_id = 2\<rparr>"
    using tok num
    by (simp add: complete_profile_def sample_valid_gender sample_lower age_col_def bob_db_eq
        store_defs bob_row_def del: One_nat_def)
      (simp add: sample_ext_def)
  show ?thesis
    by (intro conjI) (fact tok sample_find(2) num st ev)+
qed

lemma same_email_same_row:
  "emails_distinct_ci d \<Longrightarrow> u \<in> set (users d) \<Longrightarrow> v \<in> set (users d) \<Longrightarrow>
   toLowerCase (email u) = toLowerCase (email v) \<Longrightarrow> u = v"
  by (auto simp: emails_distinct_ci_def distinct_map dest: inj_onD)

text \<open>
  X7. While every stored email is in lower case and the emails are distinct up to case,
  a login that passes the input checks is answered 200 exactly when some stored account
  has the request's email up to letter case, holds a hash, and the hash matches the
  secret; otherwise it is answered 401.
\<close>

theorem login_succeeds_iff_credentials_match:
  assumes "truthy_s (l_email r)" "truthy_s (l_password r)" "isValidEmail (str_of (l_email r))"
    and "emails_lower d" "emails_distinct_ci d"
  shows "(status_of (login X r d) = 200 \<longleftrightarrow> credentials_match X r d) \<and>
         (status_of (login X r d) = 401 \<longleftrightarrow> \<not> credentials_match X r d)"
proof (cases "findUnique_email (toLowerCase (str_of (l_email r))) d")
  case None
  have "\<not> credentials_match X r d"
  proof
    assume "credentials_match X r d"
    then obtain u where u: "u \<in> set (users d)"
      "toLowerCase (email u) = toLowerCase (str_of (l_email r))"
      by (auto simp: credentials_match_def list_ex_iff)
    then have "email u = toLowerCase (str_of (l_email r))"
      using assms(4) by (auto simp: emails_lower_def list_all_iff)
    then show False
      using None u(1) by (auto simp: findUnique_email_def find_None_iff)
  qed
  then show ?thesis
    using assms(1-3) None by (simp add: login_def status_of_error_json)
next
  case (Some u)
  then have u: "u \<in> set (users d)" "email u = toLowerCase (str_of (l_email r))"
    by (auto simp: findUnique_email_def find_Some_iff)
  have "credentials_match X r d \<longleftrightarrow>
        truthy_s (password u) \<and> bcrypt_compare X (str_of (l_password r)) (str_of (password u))"
  proof
    assume "credentials_match X r d"
    then obtain v where v: "v \<in> set (users d)"
      "toLowerCase (email v) = toLowerCase (str_of (l_email r))"
      "truthy_s (password v)" "bcrypt_compare X (str_of (l_password r)) (str_of (password v))"
      by (auto simp: credentials_match_def list_ex_iff)
    have "toLowerCase (email v) = toLowerCase (email u)"
      using v(2) u(2) by (simp add: toLowerCase_idem)
    then have "v = u"
      using same_email_same_row[OF assms(5) v(1) u(1)] by simp
    then show "truthy_s (password u) \<and>
        bcrypt_compare X (str_of (l_password r)) (str_of (password u))"
      using v(3,4) by simp
  next
    assume "truthy_s (password u) \<and>
        bcrypt_compare X (str_of (l_password r)) (str_of (password u))"
    then show "credentials_match X r d"
      using u by (auto simp: credentials_match_def list_ex_iff toLowerCase_idem intro!: bexI[of _ u])
  qed
  then show ?thesis
    using assms(1-3) Some by (auto simp: login_def status_of_error_json)
qed

theorem login_succeeds_iff_credentials_match_witness:
  "emails_lower ann_db \<and> emails_distinct_ci ann_db \<and>
   credentials_match sample_ext \<lparr>l_email = Some ''A@B.COM'', l_password = Some ''abcdef''\<rparr> ann_db \<and>
   status_of (login sample_ext \<lparr>l_email = Some ''A@B.COM'', l_password = Some ''abcdef''\<rparr> ann_db) = 200 \<and>
   \<not> credentials_match sample_ext \<lparr>l_email = Some ''a@b.com'', l_password = Some ''guess!''\<rparr> ann_db \<and>
   status_of (login sample_ext \<lparr>l_email = Some ''a@b.com'', l_password = Some ''guess!''\<rparr> ann_db) = 401"
proof -
  let ?ok = "\<lparr>l_email = Some ''A@B.COM'', l_password = Some ''abcdef''\<rparr>"
  let ?no = "\<lparr>l_email = Some ''a@b.com'', l_password = Some ''guess!''\<rparr>"
  have h: "truthy_s (l_email ?ok)" "truthy_s (l_password ?ok)" "isValidEmail (str_of (l_email ?ok))"
    and g: "truthy_s (l_email ?no)" "truthy_s (l_password ?no)" "isValidEmail (str_of (l_email ?no))"
    by (simp_all add: sample_valid_email del: One_nat_def)
  have m: "credentials_match sample_ext ?ok ann_db" "\<not> credentials_match sample_ext ?no ann_db"
    by (simp_all add: credentials_match_def ann_db_eq ann_row_def sample_lower sample_ext_def
        del: One_nat_def)
  note t = login_succeeds_iff_credentials_match[OF h sample_wf(3,4), of sample_ext]
  note s = login_succeeds_iff_credentials_match[OF g sample_wf(3,4), of sample_ext]
  have c: "status_of (login sample_ext ?ok ann_db) = 200"
    "status_of (login sample_ext ?no ann_db) = 401"
    using t s m by blast+
  show ?thesis
    by (intro conjI) (fact sample_wf(3,4) m c)+
qed

end
